theory Spec2Isabelle
  imports Complex_Main "HOL-Library.Word"
begin

section \<open>The product entity (package models)\<close>

text \<open>
  Timestamps (\<^verbatim>\<open>time.Time\<close>) are instants on the wall clock, counted in nanoseconds;
  the reading of \<^verbatim>\<open>time.Now()\<close> is an argument \<open>now\<close> of every function that
  reads the clock. \<^verbatim>\<open>Stock\<close> is a Go \<^verbatim>\<open>int\<close> that is only copied and compared with
  zero.

  A price is a \<^verbatim>\<open>float64\<close>: a number, one of the two infinities, or NaN. The code only
  copies prices and compares them with zero, so the numbers are kept as reals, and the
  two comparisons are Go's: every comparison with NaN is false, so for NaN neither
  \<^verbatim>\<open>x <= 0\<close> nor \<^verbatim>\<open>x > 0\<close> holds.
\<close>

type_synonym time = int

datatype float64 = Finite real | PosInf | NegInf | NaN

fun le_zero :: "float64 \<Rightarrow> bool" where
  "le_zero (Finite x) = (x \<le> 0)"
| "le_zero PosInf = False"
| "le_zero NegInf = True"
| "le_zero NaN = False"

fun gt_zero :: "float64 \<Rightarrow> bool" where
  "gt_zero (Finite x) = (0 < x)"
| "gt_zero PosInf = True"
| "gt_zero NegInf = False"
| "gt_zero NaN = False"

record Product =
  ID :: string
  Name :: string
  Description :: string
  Price :: float64
  Category :: string
  SKU :: string
  Stock :: int
  IsActive :: bool
  CreatedAt :: time
  UpdatedAt :: time

text \<open>
  The fields of the two request structs carry the names of the source with a prefix,
  since a field name belongs to one record. A pointer field of
  \<^verbatim>\<open>UpdateProductRequest\<close> is an option: \<open>None\<close> is the nil pointer.
\<close>

record CreateProductRequest =
  cName :: string
  cDescription :: string
  cPrice :: float64
  cCategory :: string
  cSKU :: string
  cStock :: int

record UpdateProductRequest =
  uName :: "string option"
  uDescription :: "string option"
  uPrice :: "float64 option"
  uCategory :: "string option"
  uSKU :: "string option"
  uStock :: "int option"
  uIsActive :: "bool option"

subsection \<open>Identifiers\<close>

text \<open>
  \<^verbatim>\<open>uuid.New().String()\<close>: the generator draws sixteen bytes (\<^verbatim>\<open>type UUID [16]byte\<close>),
  an argument of the constructor here, and \<^verbatim>\<open>String\<close> prints them in lower-case
  hexadecimal, in groups of 4, 2, 2, 2 and 6 bytes separated by hyphens.
\<close>

type_synonym UUID = "8 word list"

definition hextable :: string where
  "hextable = ''0123456789abcdef''"

definition encodeByte :: "8 word \<Rightarrow> string" where
  "encodeByte b = [hextable ! (unat b div 16), hextable ! (unat b mod 16)]"

definition encodeHex :: "8 word list \<Rightarrow> string" where
  "encodeHex bs = concat (map encodeByte bs)"

definition uuid_String :: "UUID \<Rightarrow> string" where
  "uuid_String u =
     encodeHex (take 4 u) @ ''-'' @ encodeHex (take 2 (drop 4 u)) @ ''-'' @
     encodeHex (take 2 (drop 6 u)) @ ''-'' @ encodeHex (take 2 (drop 8 u)) @ ''-'' @
     encodeHex (drop 10 u)"

subsection \<open>Construction and partial update\<close>

definition NewProduct :: "time \<Rightarrow> UUID \<Rightarrow> CreateProductRequest \<Rightarrow> Product" where
  "NewProduct now u req =
     \<lparr> ID = uuid_String u,
       Name = cName req,
       Description = cDescription req,
       Price = cPrice req,
       Category = cCategory req,
       SKU = cSKU req,
       Stock = cStock req,
       IsActive = True,
       CreatedAt = now,
       UpdatedAt = now \<rparr>"

text \<open>
  \<^verbatim>\<open>func (p *Product) Update(req UpdateProductRequest)\<close> mutates the receiver; the model
  returns the record after the call. The seven tests run in the order of the source.
\<close>

definition Update :: "time \<Rightarrow> UpdateProductRequest \<Rightarrow> Product \<Rightarrow> Product" where
  "Update now req p =
     (let p = (case uName req of None \<Rightarrow> p | Some v \<Rightarrow> p\<lparr>Name := v\<rparr>);
          p = (case uDescription req of None \<Rightarrow> p | Some v \<Rightarrow> p\<lparr>Description := v\<rparr>);
          p = (case uPrice req of None \<Rightarrow> p | Some v \<Rightarrow> p\<lparr>Price := v\<rparr>);
          p = (case uCategory req of None \<Rightarrow> p | Some v \<Rightarrow> p\<lparr>Category := v\<rparr>);
          p = (case uSKU req of None \<Rightarrow> p | Some v \<Rightarrow> p\<lparr>SKU := v\<rparr>);
          p = (case uStock req of None \<Rightarrow> p | Some v \<Rightarrow> p\<lparr>Stock := v\<rparr>);
          p = (case uIsActive req of None \<Rightarrow> p | Some v \<Rightarrow> p\<lparr>IsActive := v\<rparr>)
      in p\<lparr>UpdatedAt := now\<rparr>)"

section \<open>Errors\<close>

text \<open>
  Go error values. The two sentinels of package service are constructors of their own,
  since \<^verbatim>\<open>errors.Is\<close> compares them by identity. \<open>New msg\<close> is \<^verbatim>\<open>errors.New(msg)\<close>
  and also stands for the errors of the store client and of the attribute codec.
  \<open>Errorf pre e post\<close> is \<^verbatim>\<open>fmt.Errorf\<close> with one \<^verbatim>\<open>%w\<close> verb: it wraps \<open>e\<close> and its
  message is \<open>pre\<close>, the message of \<open>e\<close>, \<open>post\<close>.
\<close>

datatype error =
    ErrProductNotFound
  | ErrInvalidProduct
  | New string
  | Errorf string error string

fun Error :: "error \<Rightarrow> string" where
  "Error ErrProductNotFound = ''product not found''"
| "Error ErrInvalidProduct = ''invalid product data''"
| "Error (New msg) = msg"
| "Error (Errorf pre e post) = pre @ Error e @ post"

text \<open>\<^verbatim>\<open>errors.Is(err, target)\<close>, for a sentinel as target: walk down the chain of wrapped errors.\<close>

fun Is :: "error \<Rightarrow> error \<Rightarrow> bool" where
  "Is (Errorf pre e post) target = (Errorf pre e post = target \<or> Is e target)"
| "Is e target = (e = target)"

section \<open>The store client (an external collaborator)\<close>

text \<open>
  The repository talks to one DynamoDB table through four requests. The model of the
  client keeps what the repository can observe:
  \<^item> \<open>table\<close>: the items, in the order a scan walks them; the key of an item is its
    \<^verbatim>\<open>id\<close> attribute;
  \<^item> \<open>faults\<close>: the outcomes of the coming requests, one per request, \<open>Some e\<close> for a
    request that the client answers with the error \<open>e\<close> (an exhausted list: no error);
    a request answered with an error leaves the table as it was;
  \<^item> \<open>page\<close>: how many items one scan request reads before it filters (the repository
    sends one scan request and reads one page);
  \<^item> \<open>calls\<close>: the requests sent so far, oldest first.

  An item carries the attribute values at the names of the \<^verbatim>\<open>dynamodbav\<close> tags of
  \<^verbatim>\<open>Product\<close>, and, when \<^verbatim>\<open>dynamodbattribute.UnmarshalMap\<close> rejects it, the error it
  is rejected with. A timestamp attribute is kept as the instant its text denotes. The
  encoder of \<^verbatim>\<open>dynamodbattribute\<close> writes an empty string as the NULL attribute, and
  the decoder reads NULL back as the empty string: the attribute of an empty string
  field is \<open>NULL\<close>, which no string of a filter expression equals.
\<close>

datatype AttributeValue = S string | N float64 | BOOL bool | T time | NULL

record item =
  attributes :: Product
  malformed :: "error option"

definition string_attribute :: "string \<Rightarrow> AttributeValue" where
  "string_attribute s = (if s = '''' then NULL else S s)"

definition attribute :: "item \<Rightarrow> string \<Rightarrow> AttributeValue option" where
  "attribute it name =
     (let p = attributes it in
      if name = ''id'' then Some (string_attribute (ID p))
      else if name = ''name'' then Some (string_attribute (Name p))
      else if name = ''description'' then Some (string_attribute (Description p))
      else if name = ''price'' then Some (N (Price p))
      else if name = ''category'' then Some (string_attribute (Category p))
      else if name = ''sku'' then Some (string_attribute (SKU p))
      else if name = ''stock'' then Some (N (Finite (of_int (Stock p))))
      else if name = ''is_active'' then Some (BOOL (IsActive p))
      else if name = ''created_at'' then Some (T (CreatedAt p))
      else if name = ''updated_at'' then Some (T (UpdatedAt p))
      else None)"

definition key :: "item \<Rightarrow> string" where
  "key it = ID (attributes it)"

text \<open>
  The filter expressions of the source: \<^verbatim>\<open>is_active = :active\<close> is
  \<open>Eq ''is_active'' v\<close> with \<open>v\<close> the value bound to \<^verbatim>\<open>:active\<close>, and \<^verbatim>\<open>AND\<close> is \<open>And\<close>.
\<close>

datatype condition = Eq string AttributeValue | And condition condition

fun holds :: "condition \<Rightarrow> item \<Rightarrow> bool" where
  "holds (Eq name v) it = (attribute it name = Some v)"
| "holds (And c d) it = (holds c it \<and> holds d it)"

datatype call =
    PutItemInput item
  | GetItemInput string
  | ScanInput condition
  | DeleteItemInput string

record DynamoDB =
  table :: "item list"
  faults :: "error option list"
  page :: nat
  calls :: "call list"

definition next_fault :: "DynamoDB \<Rightarrow> error option" where
  "next_fault db = (case faults db of [] \<Rightarrow> None | f # fs \<Rightarrow> f)"

definition send :: "call \<Rightarrow> DynamoDB \<Rightarrow> error option \<times> DynamoDB" where
  "send c db =
     (next_fault db,
      db\<lparr>faults := (case faults db of [] \<Rightarrow> [] | f # fs \<Rightarrow> fs), calls := calls db @ [c]\<rparr>)"

definition PutItem :: "item \<Rightarrow> DynamoDB \<Rightarrow> (error + unit) \<times> DynamoDB" where
  "PutItem it db =
     (case send (PutItemInput it) db of
        (Some err, db') \<Rightarrow> (Inl err, db')
      | (None, db') \<Rightarrow>
          (Inr (), db'\<lparr>table := filter (\<lambda>x. key x \<noteq> key it) (table db') @ [it]\<rparr>))"

definition GetItem :: "string \<Rightarrow> DynamoDB \<Rightarrow> (error + item option) \<times> DynamoDB" where
  "GetItem k db =
     (case send (GetItemInput k) db of
        (Some err, db') \<Rightarrow> (Inl err, db')
      | (None, db') \<Rightarrow> (Inr (find (\<lambda>x. key x = k) (table db')), db'))"

definition Scan :: "condition \<Rightarrow> DynamoDB \<Rightarrow> (error + item list) \<times> DynamoDB" where
  "Scan c db =
     (case send (ScanInput c) db of
        (Some err, db') \<Rightarrow> (Inl err, db')
      | (None, db') \<Rightarrow> (Inr (filter (holds c) (take (page db') (table db'))), db'))"

definition DeleteItem :: "string \<Rightarrow> DynamoDB \<Rightarrow> (error + unit) \<times> DynamoDB" where
  "DeleteItem k db =
     (case send (DeleteItemInput k) db of
        (Some err, db') \<Rightarrow> (Inl err, db')
      | (None, db') \<Rightarrow> (Inr (), db'\<lparr>table := filter (\<lambda>x. key x \<noteq> k) (table db')\<rparr>))"

text \<open>
  \<^verbatim>\<open>dynamodbattribute.MarshalMap\<close> of a \<^verbatim>\<open>Product\<close>, a struct of plain fields, gives the
  item of its field values (\<open>attribute\<close> reads them as the encoder writes them);
  \<^verbatim>\<open>UnmarshalMap\<close> gives the fields back or the item's error.
\<close>

definition MarshalMap :: "Product \<Rightarrow> error + item" where
  "MarshalMap p = Inr \<lparr> attributes = p, malformed = None \<rparr>"

definition UnmarshalMap :: "item \<Rightarrow> error + Product" where
  "UnmarshalMap it = (case malformed it of Some err \<Rightarrow> Inl err | None \<Rightarrow> Inr (attributes it))"

section \<open>The repository (package repository)\<close>

definition repo_Create :: "Product \<Rightarrow> DynamoDB \<Rightarrow> (error + unit) \<times> DynamoDB" where
  "repo_Create product db =
     (case MarshalMap product of
        Inl err \<Rightarrow> (Inl (Errorf ''failed to marshal product: '' err ''''), db)
      | Inr it \<Rightarrow>
          (case PutItem it db of
             (Inl err, db') \<Rightarrow> (Inl (Errorf ''failed to create product: '' err ''''), db')
           | (Inr _, db') \<Rightarrow> (Inr (), db')))"

definition repo_GetByID :: "string \<Rightarrow> DynamoDB \<Rightarrow> (error + Product option) \<times> DynamoDB" where
  "repo_GetByID k db =
     (case GetItem k db of
        (Inl err, db') \<Rightarrow> (Inl (Errorf ''failed to get product: '' err ''''), db')
      | (Inr None, db') \<Rightarrow> (Inr None, db')
      | (Inr (Some it), db') \<Rightarrow>
          (case UnmarshalMap it of
             Inl err \<Rightarrow> (Inl (Errorf ''failed to unmarshal product: '' err ''''), db')
           | Inr product \<Rightarrow> (Inr (Some product), db')))"

text \<open>The loop of \<^verbatim>\<open>GetAll\<close> and \<^verbatim>\<open>GetByCategory\<close> over \<^verbatim>\<open>result.Items\<close>.\<close>

fun unmarshal_items :: "item list \<Rightarrow> Product list \<Rightarrow> error + Product list" where
  "unmarshal_items [] products = Inr products"
| "unmarshal_items (it # its) products =
     (case UnmarshalMap it of
        Inl err \<Rightarrow> Inl (Errorf ''failed to unmarshal product: '' err '''')
      | Inr product \<Rightarrow> unmarshal_items its (products @ [product]))"

definition repo_GetAll :: "DynamoDB \<Rightarrow> (error + Product list) \<times> DynamoDB" where
  "repo_GetAll db =
     (case Scan (Eq ''is_active'' (BOOL True)) db of
        (Inl err, db') \<Rightarrow> (Inl (Errorf ''failed to scan products: '' err ''''), db')
      | (Inr its, db') \<Rightarrow> (unmarshal_items its [], db'))"

definition repo_GetByCategory :: "string \<Rightarrow> DynamoDB \<Rightarrow> (error + Product list) \<times> DynamoDB" where
  "repo_GetByCategory category db =
     (case Scan (And (Eq ''category'' (S category)) (Eq ''is_active'' (BOOL True))) db of
        (Inl err, db') \<Rightarrow> (Inl (Errorf ''failed to scan products by category: '' err ''''), db')
      | (Inr its, db') \<Rightarrow> (unmarshal_items its [], db'))"

definition repo_Update :: "Product \<Rightarrow> DynamoDB \<Rightarrow> (error + unit) \<times> DynamoDB" where
  "repo_Update product db =
     (case MarshalMap product of
        Inl err \<Rightarrow> (Inl (Errorf ''failed to marshal product: '' err ''''), db)
      | Inr it \<Rightarrow>
          (case PutItem it db of
             (Inl err, db') \<Rightarrow> (Inl (Errorf ''failed to update product: '' err ''''), db')
           | (Inr _, db') \<Rightarrow> (Inr (), db')))"

definition repo_Delete :: "string \<Rightarrow> DynamoDB \<Rightarrow> (error + unit) \<times> DynamoDB" where
  "repo_Delete k db =
     (case DeleteItem k db of
        (Inl err, db') \<Rightarrow> (Inl (Errorf ''failed to delete product: '' err ''''), db')
      | (Inr _, db') \<Rightarrow> (Inr (), db'))"

section \<open>The service (package service)\<close>

text \<open>The validators return \<open>None\<close> for Go's nil error.\<close>

definition validateCreateRequest :: "CreateProductRequest \<Rightarrow> error option" where
  "validateCreateRequest req =
     (if cName req = '''' then Some (New ''product name is required'')
      else if le_zero (cPrice req) then Some (New ''product price must be greater than 0'')
      else if cCategory req = '''' then Some (New ''product category is required'')
      else if cSKU req = '''' then Some (New ''product SKU is required'')
      else if cStock req < 0 then Some (New ''product stock cannot be negative'')
      else None)"

definition validateUpdateRequest :: "UpdateProductRequest \<Rightarrow> error option" where
  "validateUpdateRequest req =
     (if (case uPrice req of None \<Rightarrow> False | Some v \<Rightarrow> le_zero v)
        then Some (New ''product price must be greater than 0'')
      else if (case uStock req of None \<Rightarrow> False | Some v \<Rightarrow> v < 0)
        then Some (New ''product stock cannot be negative'')
      else if (case uName req of None \<Rightarrow> False | Some v \<Rightarrow> v = '''')
        then Some (New ''product name cannot be empty'')
      else if (case uCategory req of None \<Rightarrow> False | Some v \<Rightarrow> v = '''')
        then Some (New ''product category cannot be empty'')
      else if (case uSKU req of None \<Rightarrow> False | Some v \<Rightarrow> v = '''')
        then Some (New ''product SKU cannot be empty'')
      else None)"

definition CreateProduct ::
  "time \<Rightarrow> UUID \<Rightarrow> CreateProductRequest \<Rightarrow> DynamoDB \<Rightarrow> (error + Product) \<times> DynamoDB" where
  "CreateProduct now u req db =
     (case validateCreateRequest req of
        Some err \<Rightarrow> (Inl (Errorf '''' ErrInvalidProduct ('': '' @ Error err)), db)
      | None \<Rightarrow>
          (let product = NewProduct now u req in
           case repo_Create product db of
             (Inl err, db') \<Rightarrow> (Inl (Errorf ''failed to create product: '' err ''''), db')
           | (Inr _, db') \<Rightarrow> (Inr product, db')))"

definition GetProduct :: "string \<Rightarrow> DynamoDB \<Rightarrow> (error + Product) \<times> DynamoDB" where
  "GetProduct k db =
     (if k = '''' then (Inl (Errorf '''' ErrInvalidProduct '': product ID cannot be empty''), db)
      else case repo_GetByID k db of
             (Inl err, db') \<Rightarrow> (Inl (Errorf ''failed to get product: '' err ''''), db')
           | (Inr None, db') \<Rightarrow> (Inl ErrProductNotFound, db')
           | (Inr (Some product), db') \<Rightarrow> (Inr product, db'))"

definition GetAllProducts :: "DynamoDB \<Rightarrow> (error + Product list) \<times> DynamoDB" where
  "GetAllProducts db =
     (case repo_GetAll db of
        (Inl err, db') \<Rightarrow> (Inl (Errorf ''failed to get products: '' err ''''), db')
      | (Inr products, db') \<Rightarrow> (Inr products, db'))"

definition GetProductsByCategory :: "string \<Rightarrow> DynamoDB \<Rightarrow> (error + Product list) \<times> DynamoDB" where
  "GetProductsByCategory category db =
     (if category = ''''
        then (Inl (Errorf '''' ErrInvalidProduct '': category cannot be empty''), db)
      else case repo_GetByCategory category db of
             (Inl err, db') \<Rightarrow>
               (Inl (Errorf ''failed to get products by category: '' err ''''), db')
           | (Inr products, db') \<Rightarrow> (Inr products, db'))"

definition UpdateProduct ::
  "time \<Rightarrow> string \<Rightarrow> UpdateProductRequest \<Rightarrow> DynamoDB \<Rightarrow> (error + Product) \<times> DynamoDB" where
  "UpdateProduct now k req db =
     (if k = '''' then (Inl (Errorf '''' ErrInvalidProduct '': product ID cannot be empty''), db)
      else case repo_GetByID k db of
             (Inl err, db') \<Rightarrow> (Inl (Errorf ''failed to get product for update: '' err ''''), db')
           | (Inr None, db') \<Rightarrow> (Inl ErrProductNotFound, db')
           | (Inr (Some product), db') \<Rightarrow>
               (case validateUpdateRequest req of
                  Some err \<Rightarrow> (Inl (Errorf '''' ErrInvalidProduct ('': '' @ Error err)), db')
                | None \<Rightarrow>
                    (let product = Update now req product in
                     case repo_Update product db' of
                       (Inl err, db'') \<Rightarrow>
                         (Inl (Errorf ''failed to update product: '' err ''''), db'')
                     | (Inr _, db'') \<Rightarrow> (Inr product, db''))))"

definition DeleteProduct :: "string \<Rightarrow> DynamoDB \<Rightarrow> (error + unit) \<times> DynamoDB" where
  "DeleteProduct k db =
     (if k = '''' then (Inl (Errorf '''' ErrInvalidProduct '': product ID cannot be empty''), db)
      else case repo_GetByID k db of
             (Inl err, db') \<Rightarrow>
               (Inl (Errorf ''failed to get product for deletion: '' err ''''), db')
           | (Inr None, db') \<Rightarrow> (Inl ErrProductNotFound, db')
           | (Inr (Some product), db') \<Rightarrow>
               (case repo_Delete k db' of
                  (Inl err, db'') \<Rightarrow> (Inl (Errorf ''failed to delete product: '' err ''''), db'')
                | (Inr _, db'') \<Rightarrow> (Inr (), db'')))"

section \<open>The rules of the specification\<close>

text \<open>
  The validation rules as the specification words them, to be compared with the
  validators of the service. \<open>create_violations\<close> lists the rules a request breaks, in
  the order of the specification, each with the message the service has for it.
\<close>

definition create_rules :: "CreateProductRequest \<Rightarrow> bool" where
  "create_rules req \<longleftrightarrow>
     cName req \<noteq> '''' \<and> gt_zero (cPrice req) \<and> cCategory req \<noteq> '''' \<and> cSKU req \<noteq> '''' \<and>
     0 \<le> cStock req"

definition create_violations :: "CreateProductRequest \<Rightarrow> string list" where
  "create_violations req =
     (if cName req \<noteq> '''' then [] else [''product name is required'']) @
     (if gt_zero (cPrice req) then [] else [''product price must be greater than 0'']) @
     (if cCategory req \<noteq> '''' then [] else [''product category is required'']) @
     (if cSKU req \<noteq> '''' then [] else [''product SKU is required'']) @
     (if 0 \<le> cStock req then [] else [''product stock cannot be negative''])"

definition update_rules :: "UpdateProductRequest \<Rightarrow> bool" where
  "update_rules req \<longleftrightarrow>
     (case uPrice req of None \<Rightarrow> True | Some v \<Rightarrow> gt_zero v) \<and>
     (case uStock req of None \<Rightarrow> True | Some v \<Rightarrow> 0 \<le> v) \<and>
     (case uName req of None \<Rightarrow> True | Some v \<Rightarrow> v \<noteq> '''') \<and>
     (case uCategory req of None \<Rightarrow> True | Some v \<Rightarrow> v \<noteq> '''') \<and>
     (case uSKU req of None \<Rightarrow> True | Some v \<Rightarrow> v \<noteq> '''')"


section \<open>Sample data\<close>

definition no_fields :: UpdateProductRequest where
  "no_fields = \<lparr> uName = None, uDescription = None, uPrice = None, uCategory = None,
       uSKU = None, uStock = None, uIsActive = None \<rparr>"

definition widget :: Product where
  "widget = \<lparr> ID = ''id1'', Name = ''Widget'', Description = ''A widget'', Price = Finite 9.99,
       Category = ''tools'', SKU = ''W-1'', Stock = 5, IsActive = True,
       CreatedAt = 1000, UpdatedAt = 1000 \<rparr>"

definition price_only :: UpdateProductRequest where
  "price_only = no_fields \<lparr> uPrice := Some (Finite 12.5) \<rparr>"

definition widget_request :: CreateProductRequest where
  "widget_request = \<lparr> cName = ''Widget'', cDescription = ''A widget'', cPrice = Finite 9.99,
       cCategory = ''tools'', cSKU = ''W-1'', cStock = 5 \<rparr>"

definition uuid1 :: UUID where
  "uuid1 = [0x12, 0x3e, 0x45, 0x67, 0xe8, 0x9b, 0x12, 0xd3, 0xa4, 0x56, 0x42, 0x66, 0x14, 0x17, 0x40, 0x00]"

definition uuid2 :: UUID where
  "uuid2 = [0x12, 0x3e, 0x45, 0x67, 0xe8, 0x9b, 0x12, 0xd3, 0xa4, 0x56, 0x42, 0x66, 0x14, 0x17, 0x40, 0x01]"


definition gadget :: Product where
  "gadget = \<lparr> ID = ''id2'', Name = ''Gadget'', Description = '''', Price = Finite 3,
       Category = ''tools'', SKU = ''G-1'', Stock = 0, IsActive = False,
       CreatedAt = 500, UpdatedAt = 700 \<rparr>"

definition shop :: DynamoDB where
  "shop = \<lparr> table = [\<lparr>attributes = widget, malformed = None\<rparr>,
                      \<lparr>attributes = gadget, malformed = None\<rparr>],
            faults = [], page = 10, calls = [] \<rparr>"

definition bad_price :: UpdateProductRequest where
  "bad_price = no_fields \<lparr> uPrice := Some (Finite 0) \<rparr>"

definition nameless_request :: CreateProductRequest where
  "nameless_request = widget_request \<lparr> cName := '''' \<rparr>"

text \<open>
  Requests with the price \<^verbatim>\<open>math.NaN()\<close>, a store that refuses the next request, and one
  that answers the next request and refuses the one after it.
\<close>

definition nan_request :: CreateProductRequest where
  "nan_request = widget_request \<lparr> cPrice := NaN \<rparr>"

definition nan_uncategorised :: CreateProductRequest where
  "nan_uncategorised = widget_request \<lparr> cPrice := NaN, cCategory := '''' \<rparr>"

definition nan_price :: UpdateProductRequest where
  "nan_price = no_fields \<lparr> uPrice := Some NaN \<rparr>"

definition refusing_shop :: DynamoDB where
  "refusing_shop = shop \<lparr> faults := [Some (New ''ValidationException'')] \<rparr>"

definition refusing_write_shop :: DynamoDB where
  "refusing_write_shop = shop \<lparr> faults := [None, Some (New ''ValidationException'')] \<rparr>"

section \<open>Identifiers are well formed and distinct\<close>

lemma hextable_nth_inj:
  "i < 16 \<Longrightarrow> j < 16 \<Longrightarrow> hextable ! i = hextable ! j \<Longrightarrow> i = j"
proof -
  have d: "distinct hextable" by (simp add: hextable_def)
  have l: "length hextable = 16" by (simp add: hextable_def)
  show "i < 16 \<Longrightarrow> j < 16 \<Longrightarrow> hextable ! i = hextable ! j \<Longrightarrow> i = j"
    using d l by (simp add: nth_eq_iff_index_eq)
qed

lemma encodeByte_inj: "encodeByte a = encodeByte b \<Longrightarrow> a = b"
proof -
  assume h: "encodeByte a = encodeByte b"
  have la: "unat a < 256" using unsigned_less [of a] by simp
  have lb: "unat b < 256" using unsigned_less [of b] by simp
  from h have e1: "hextable ! (unat a div 16) = hextable ! (unat b div 16)"
    and e2: "hextable ! (unat a mod 16) = hextable ! (unat b mod 16)"
    by (simp_all add: encodeByte_def)
  have "unat a div 16 < 16" "unat b div 16 < 16" using la lb by simp_all
  then have d: "unat a div 16 = unat b div 16" using e1 hextable_nth_inj by blast
  have "unat a mod 16 < 16" "unat b mod 16 < 16" by simp_all
  then have m: "unat a mod 16 = unat b mod 16" using e2 hextable_nth_inj by blast
  have "unat a = unat b" using d m by (metis div_mult_mod_eq)
  then show "a = b" by (simp add: word_unat_eq_iff)
qed

lemma length_encodeHex: "length (encodeHex bs) = 2 * length bs"
  by (induction bs) (simp_all add: encodeHex_def encodeByte_def)


lemma encodeHex_inj: "length xs = length ys \<Longrightarrow> encodeHex xs = encodeHex ys \<Longrightarrow> xs = ys"
proof (induction xs ys rule: list_induct2)
  case Nil
  then show ?case by simp
next
  case (Cons x xs y ys)
  from Cons.prems have "encodeByte x @ encodeHex xs = encodeByte y @ encodeHex ys"
    by (simp add: encodeHex_def)
  then have "encodeByte x = encodeByte y \<and> encodeHex xs = encodeHex ys"
    by (simp add: encodeByte_def)
  then show ?case using Cons.IH encodeByte_inj by blast
qed

lemma uuid_String_nonempty: "uuid_String u \<noteq> ''''" by (simp add: uuid_String_def)
lemma uuid_String_length: "length u = 16 \<Longrightarrow> length (uuid_String u) = 36" by (simp add: uuid_String_def length_encodeHex)

lemma append_same_length:
  "length a = length b \<Longrightarrow> a @ x = b @ y \<Longrightarrow> a = b \<and> x = y"
  by simp

lemma uuid_String_inj:
  assumes lu: "length u = 16" and lv: "length v = 16" and e: "uuid_String u = uuid_String v"
  shows "u = v"
proof -
  let ?a = "\<lambda>w::UUID. encodeHex (take 4 w)"
  let ?b = "\<lambda>w::UUID. encodeHex (take 2 (drop 4 w))"
  let ?c = "\<lambda>w::UUID. encodeHex (take 2 (drop 6 w))"
  let ?d = "\<lambda>w::UUID. encodeHex (take 2 (drop 8 w))"
  let ?e = "\<lambda>w::UUID. encodeHex (drop 10 w)"
  have la: "length (?a u) = length (?a v)" using lu lv by (simp add: length_encodeHex)
  have lb: "length (?b u) = length (?b v)" using lu lv by (simp add: length_encodeHex)
  have lc: "length (?c u) = length (?c v)" using lu lv by (simp add: length_encodeHex)
  have ld: "length (?d u) = length (?d v)" using lu lv by (simp add: length_encodeHex)
  from e have 1: "?a u @ (''-'' @ ?b u @ ''-'' @ ?c u @ ''-'' @ ?d u @ ''-'' @ ?e u)
      = ?a v @ (''-'' @ ?b v @ ''-'' @ ?c v @ ''-'' @ ?d v @ ''-'' @ ?e v)"
    by (simp add: uuid_String_def)
  from append_same_length [OF la 1] have a: "?a u = ?a v"
    and 2: "?b u @ (''-'' @ ?c u @ ''-'' @ ?d u @ ''-'' @ ?e u) = ?b v @ (''-'' @ ?c v @ ''-'' @ ?d v @ ''-'' @ ?e v)"
    by simp_all
  from append_same_length [OF lb 2] have b: "?b u = ?b v"
    and 3: "?c u @ (''-'' @ ?d u @ ''-'' @ ?e u) = ?c v @ (''-'' @ ?d v @ ''-'' @ ?e v)"
    by simp_all
  from append_same_length [OF lc 3] have c: "?c u = ?c v"
    and 4: "?d u @ (''-'' @ ?e u) = ?d v @ (''-'' @ ?e v)"
    by simp_all
  from append_same_length [OF ld 4] have d: "?d u = ?d v" and e5: "?e u = ?e v"
    by simp_all
  have ta: "take 4 u = take 4 v" using a lu lv by (intro encodeHex_inj) simp_all
  have tb: "take 2 (drop 4 u) = take 2 (drop 4 v)" using b lu lv by (intro encodeHex_inj) simp_all
  have tc: "take 2 (drop 6 u) = take 2 (drop 6 v)" using c lu lv by (intro encodeHex_inj) simp_all
  have td: "take 2 (drop 8 u) = take 2 (drop 8 v)" using d lu lv by (intro encodeHex_inj) simp_all
  have te: "drop 10 u = drop 10 v" using e5 lu lv by (intro encodeHex_inj) simp_all
  have split: "w = take 4 w @ take 2 (drop 4 w) @ take 2 (drop 6 w) @ take 2 (drop 8 w) @ drop 10 w"
    for w :: UUID
  proof -
    have "drop 8 w = take 2 (drop 8 w) @ drop 10 w"
      using append_take_drop_id [of 2 "drop 8 w"] by simp
    moreover have "drop 6 w = take 2 (drop 6 w) @ drop 8 w"
      using append_take_drop_id [of 2 "drop 6 w"] by simp
    moreover have "drop 4 w = take 2 (drop 4 w) @ drop 6 w"
      using append_take_drop_id [of 2 "drop 4 w"] by simp
    moreover have "w = take 4 w @ drop 4 w" by simp
    ultimately show ?thesis by metis
  qed
  show ?thesis using split [of u] split [of v] ta tb tc td te by metis
qed

section \<open>Facts about the repository\<close>

lemma not_le_zero: "x \<noteq> NaN \<Longrightarrow> \<not> le_zero x \<longleftrightarrow> gt_zero x"
  by (cases x) auto

lemma validateCreateRequest_rules:
  "cPrice req \<noteq> NaN \<Longrightarrow> validateCreateRequest req = None \<longleftrightarrow> create_rules req"
  by (cases "cPrice req") (auto simp: validateCreateRequest_def create_rules_def)

lemma validateCreateRequest_first:
  "cPrice req \<noteq> NaN \<Longrightarrow>
     validateCreateRequest req =
       (case create_violations req of [] \<Rightarrow> None | m # ms \<Rightarrow> Some (New m))"
  by (cases "cPrice req") (simp_all add: validateCreateRequest_def create_violations_def not_le)

lemma validateUpdateRequest_rules:
  "uPrice req \<noteq> Some NaN \<Longrightarrow> validateUpdateRequest req = None \<longleftrightarrow> update_rules req"
proof (cases "uPrice req")
  case None
  then show ?thesis
    by (auto simp: validateUpdateRequest_def update_rules_def split: option.splits)
next
  case (Some x)
  assume "uPrice req \<noteq> Some NaN"
  with Some show ?thesis
    by (cases x) (auto simp: validateUpdateRequest_def update_rules_def split: option.splits)
qed

lemma table_send [simp]: "table (snd (send c db)) = table db"
  by (simp add: send_def)

lemma calls_send [simp]: "calls (snd (send c db)) = calls db @ [c]"
  by (simp add: send_def)

lemma fst_send [simp]: "fst (send c db) = next_fault db"
  by (simp add: send_def)

lemma repo_GetByID_state: "snd (repo_GetByID k db) = snd (send (GetItemInput k) db)"
  by (simp add: repo_GetByID_def GetItem_def split: prod.splits option.splits sum.splits)

lemma repo_GetByID_result:
  "fst (repo_GetByID k db) =
     (case next_fault db of
        Some err \<Rightarrow> Inl (Errorf ''failed to get product: '' err '''')
      | None \<Rightarrow>
         (case find (\<lambda>x. key x = k) (table db) of
            None \<Rightarrow> Inr None
          | Some it \<Rightarrow>
             (case malformed it of
                Some err \<Rightarrow> Inl (Errorf ''failed to unmarshal product: '' err '''')
              | None \<Rightarrow> Inr (Some (attributes it)))))"
  by (simp add: repo_GetByID_def GetItem_def UnmarshalMap_def send_def
      split: prod.splits option.splits sum.splits)

lemma repo_GetByID_ID: "fst (repo_GetByID k db) = Inr (Some p) \<Longrightarrow> ID p = k"
  by (auto simp: repo_GetByID_result key_def find_Some_iff split: option.splits)

lemma repo_Update_state:
  "repo_Update p db =
     (case next_fault db of
        Some err \<Rightarrow> (Inl (Errorf ''failed to update product: '' err ''''), snd (send (PutItemInput \<lparr>attributes = p, malformed = None\<rparr>) db))
      | None \<Rightarrow> (Inr (), (snd (send (PutItemInput \<lparr>attributes = p, malformed = None\<rparr>) db))
           \<lparr>table := filter (\<lambda>x. key x \<noteq> ID p) (table db) @ [\<lparr>attributes = p, malformed = None\<rparr>]\<rparr>))"
  by (simp add: repo_Update_def MarshalMap_def PutItem_def key_def send_def split: option.splits)

lemma Is_invalid_wrap [simp]: "Is (Errorf pre ErrInvalidProduct post) ErrInvalidProduct"
  by simp

lemma repo_Update_table:
  "fst (repo_Update p db) = Inr () \<Longrightarrow>
     table (snd (repo_Update p db)) =
       filter (\<lambda>x. key x \<noteq> ID p) (table db) @ [\<lparr>attributes = p, malformed = None\<rparr>]"
  by (simp add: repo_Update_state split: option.splits)

lemma ID_Update [simp]: "ID (Update now req p) = ID p"
  by (simp add: Update_def Let_def split: option.split)

lemma key_item [simp]: "key \<lparr>attributes = p, malformed = m\<rparr> = ID p"
  by (simp add: key_def)

lemma find_put:
  "find (\<lambda>x. key x = k) (filter (\<lambda>x. key x \<noteq> k) xs @ [it]) = (if key it = k then Some it else None)"
  by (induction xs) auto

lemma repo_Create_state:
  "repo_Create p db =
     (case next_fault db of
        Some err \<Rightarrow> (Inl (Errorf ''failed to create product: '' err ''''), snd (send (PutItemInput \<lparr>attributes = p, malformed = None\<rparr>) db))
      | None \<Rightarrow> (Inr (), (snd (send (PutItemInput \<lparr>attributes = p, malformed = None\<rparr>) db))
           \<lparr>table := filter (\<lambda>x. key x \<noteq> ID p) (table db) @ [\<lparr>attributes = p, malformed = None\<rparr>]\<rparr>))"
  by (simp add: repo_Create_def MarshalMap_def PutItem_def send_def split: option.splits)

lemma repo_Delete_state:
  "repo_Delete k db =
     (case next_fault db of
        Some err \<Rightarrow> (Inl (Errorf ''failed to delete product: '' err ''''), snd (send (DeleteItemInput k) db))
      | None \<Rightarrow> (Inr (), (snd (send (DeleteItemInput k) db))
           \<lparr>table := filter (\<lambda>x. key x \<noteq> k) (table db)\<rparr>))"
  by (simp add: repo_Delete_def DeleteItem_def send_def split: option.splits)

lemma create_rules_violations: "create_rules req \<longleftrightarrow> create_violations req = []"
  by (simp add: create_rules_def create_violations_def)

lemmas sample_defs = shop_def widget_def gadget_def no_fields_def price_only_def bad_price_def
  widget_request_def nameless_request_def

lemma shop_get_id1: "fst (repo_GetByID ''id1'' shop) = Inr (Some widget)"
  by (simp add: repo_GetByID_result next_fault_def key_def sample_defs)

lemma shop_get_missing: "fst (repo_GetByID ''missing-id'' shop) = Inr None"
  by (simp add: repo_GetByID_result next_fault_def key_def sample_defs)

lemma shop_after_get: "next_fault (snd (repo_GetByID k shop)) = None"
  by (simp add: repo_GetByID_state send_def next_fault_def shop_def)

section \<open>The entity\<close>

text \<open>
  Claim C2. \<^verbatim>\<open>Product.Update\<close> gives each field that is present in the request its
  new value and leaves each absent field as it was; the request has no field for
  \<^verbatim>\<open>ID\<close> or \<^verbatim>\<open>CreatedAt\<close>, which keep their values; \<^verbatim>\<open>UpdatedAt\<close> becomes the clock
  reading, also for the request with no field present.
\<close>

theorem Update_overwrites_present_fields:
  "Name (Update now req p) = (case uName req of None \<Rightarrow> Name p | Some v \<Rightarrow> v) \<and>
   Description (Update now req p) = (case uDescription req of None \<Rightarrow> Description p | Some v \<Rightarrow> v) \<and>
   Price (Update now req p) = (case uPrice req of None \<Rightarrow> Price p | Some v \<Rightarrow> v) \<and>
   Category (Update now req p) = (case uCategory req of None \<Rightarrow> Category p | Some v \<Rightarrow> v) \<and>
   SKU (Update now req p) = (case uSKU req of None \<Rightarrow> SKU p | Some v \<Rightarrow> v) \<and>
   Stock (Update now req p) = (case uStock req of None \<Rightarrow> Stock p | Some v \<Rightarrow> v) \<and>
   IsActive (Update now req p) = (case uIsActive req of None \<Rightarrow> IsActive p | Some v \<Rightarrow> v) \<and>
   ID (Update now req p) = ID p \<and>
   CreatedAt (Update now req p) = CreatedAt p \<and>
   UpdatedAt (Update now req p) = now \<and>
   Update now no_fields p = p\<lparr>UpdatedAt := now\<rparr>"
  by (simp add: Update_def no_fields_def Let_def split: option.split)

theorem Update_overwrites_present_fields_witness:
  "Update 2000 price_only widget = widget\<lparr>Price := Finite 12.5, UpdatedAt := 2000\<rparr> \<and>
   Update 2000 no_fields widget = widget\<lparr>UpdatedAt := 2000\<rparr>"
  using Update_overwrites_present_fields [of 2000 price_only widget]
    Update_overwrites_present_fields [of 2000 no_fields widget]
  by (simp add: price_only_def no_fields_def widget_def)

text \<open>
  Claim C4. \<^verbatim>\<open>NewProduct\<close> returns a product whose id is the text of the identifier
  drawn by the generator: it is not empty, it has 36 characters for sixteen bytes, and
  two different draws give two different ids. The other fields are those of the
  request, \<^verbatim>\<open>IsActive\<close> is true, and \<^verbatim>\<open>CreatedAt\<close> and \<^verbatim>\<open>UpdatedAt\<close> are both the
  clock reading of the construction. Nothing is asked of the request.
\<close>

theorem NewProduct_fields:
  "ID (NewProduct now u req) = uuid_String u \<and>
   ID (NewProduct now u req) \<noteq> '''' \<and>
   (length u = 16 \<longrightarrow> length (ID (NewProduct now u req)) = 36) \<and>
   (length u = 16 \<and> length u' = 16 \<and> u \<noteq> u' \<longrightarrow>
      ID (NewProduct now u req) \<noteq> ID (NewProduct now' u' req')) \<and>
   Name (NewProduct now u req) = cName req \<and>
   Description (NewProduct now u req) = cDescription req \<and>
   Price (NewProduct now u req) = cPrice req \<and>
   Category (NewProduct now u req) = cCategory req \<and>
   SKU (NewProduct now u req) = cSKU req \<and>
   Stock (NewProduct now u req) = cStock req \<and>
   IsActive (NewProduct now u req) \<and>
   CreatedAt (NewProduct now u req) = now \<and>
   UpdatedAt (NewProduct now u req) = now \<and>
   CreatedAt (NewProduct now u req) = UpdatedAt (NewProduct now u req)"
  using uuid_String_inj [of u u'] uuid_String_length [of u]
  by (auto simp: NewProduct_def uuid_String_nonempty)

theorem NewProduct_fields_witness:
  "length uuid1 = 16 \<and> length uuid2 = 16 \<and> uuid1 \<noteq> uuid2 \<and>
   ID (NewProduct 1000 uuid1 widget_request) \<noteq> ID (NewProduct 1001 uuid2 widget_request) \<and>
   length (ID (NewProduct 1000 uuid1 widget_request)) = 36 \<and>
   Name (NewProduct 1000 uuid1 widget_request) = ''Widget'' \<and>
   Price (NewProduct 1000 uuid1 widget_request) = Finite 9.99 \<and>
   Stock (NewProduct 1000 uuid1 widget_request) = 5 \<and>
   IsActive (NewProduct 1000 uuid1 widget_request) \<and>
   CreatedAt (NewProduct 1000 uuid1 widget_request) = UpdatedAt (NewProduct 1000 uuid1 widget_request)"
  using NewProduct_fields [of 1000 uuid1 widget_request uuid2 1001 widget_request]
  by (simp add: uuid1_def uuid2_def widget_request_def NewProduct_def)


section \<open>The service\<close>

subsection \<open>Updating\<close>

text \<open>
  For a request whose price, if present, is not NaN, \<^verbatim>\<open>UpdateProduct\<close> checks in this
  order: an empty id is refused with an error that wraps \<^verbatim>\<open>ErrInvalidProduct\<close>, and
  nothing is sent to the store; a record that \<^verbatim>\<open>GetByID\<close> does not find gives
  \<^verbatim>\<open>ErrProductNotFound\<close>, whatever the request holds; a request that breaks a rule on
  a present field gives an error that wraps \<^verbatim>\<open>ErrInvalidProduct\<close>; otherwise the
  request is applied to the loaded record, the merged record is written by the
  repository's \<^verbatim>\<open>Update\<close>, it is what the table then holds under the id, and it is
  returned.
\<close>

lemma UpdateProduct_checks_in_order:
  assumes n: "uPrice req \<noteq> Some NaN"
  shows
  "(k = '''' \<longrightarrow>
      (\<exists>e. UpdateProduct now k req db = (Inl e, db) \<and> Is e ErrInvalidProduct)) \<and>
   (k \<noteq> '''' \<and> fst (repo_GetByID k db) = Inr None \<longrightarrow>
      fst (UpdateProduct now k req db) = Inl ErrProductNotFound) \<and>
   (validateUpdateRequest req = None \<longleftrightarrow> update_rules req) \<and>
   (k \<noteq> '''' \<and> fst (repo_GetByID k db) = Inr (Some p) \<and> \<not> update_rules req \<longrightarrow>
      (\<exists>e. fst (UpdateProduct now k req db) = Inl e \<and> Is e ErrInvalidProduct)) \<and>
   (k \<noteq> '''' \<and> fst (repo_GetByID k db) = Inr (Some p) \<and> update_rules req \<and>
    fst (repo_Update (Update now req p) (snd (repo_GetByID k db))) = Inr () \<longrightarrow>
      UpdateProduct now k req db =
        (Inr (Update now req p), snd (repo_Update (Update now req p) (snd (repo_GetByID k db)))) \<and>
      find (\<lambda>x. key x = k) (table (snd (UpdateProduct now k req db))) =
        Some \<lparr>attributes = Update now req p, malformed = None\<rparr>)"
proof (intro conjI impI)
  assume "k = ''''"
  then show "\<exists>e. UpdateProduct now k req db = (Inl e, db) \<and> Is e ErrInvalidProduct"
    by (simp add: UpdateProduct_def)
next
  assume "k \<noteq> '''' \<and> fst (repo_GetByID k db) = Inr None"
  then show "fst (UpdateProduct now k req db) = Inl ErrProductNotFound"
    by (cases "repo_GetByID k db") (simp add: UpdateProduct_def)
next
  show "validateUpdateRequest req = None \<longleftrightarrow> update_rules req"
    by (rule validateUpdateRequest_rules [OF n])
next
  assume h: "k \<noteq> '''' \<and> fst (repo_GetByID k db) = Inr (Some p) \<and> \<not> update_rules req"
  then obtain err where "validateUpdateRequest req = Some err"
    using validateUpdateRequest_rules [OF n] by (cases "validateUpdateRequest req") auto
  with h show "\<exists>e. fst (UpdateProduct now k req db) = Inl e \<and> Is e ErrInvalidProduct"
    by (cases "repo_GetByID k db") (simp add: UpdateProduct_def)
next
  assume h: "k \<noteq> '''' \<and> fst (repo_GetByID k db) = Inr (Some p) \<and> update_rules req \<and>
    fst (repo_Update (Update now req p) (snd (repo_GetByID k db))) = Inr ()"
  then have v: "validateUpdateRequest req = None"
    by (simp add: validateUpdateRequest_rules [OF n])
  obtain db' where g: "repo_GetByID k db = (Inr (Some p), db')"
    using h by (cases "repo_GetByID k db") simp
  obtain db'' where u: "repo_Update (Update now req p) db' = (Inr (), db'')"
    using h g by (cases "repo_Update (Update now req p) db'") simp
  show "UpdateProduct now k req db =
        (Inr (Update now req p), snd (repo_Update (Update now req p) (snd (repo_GetByID k db))))"
    using h g u v by (simp add: UpdateProduct_def)
  have idp: "ID p = k" using h repo_GetByID_ID by blast
  have "table (snd (repo_Update (Update now req p) db')) =
      filter (\<lambda>x. key x \<noteq> k) (table db') @ [\<lparr>attributes = Update now req p, malformed = None\<rparr>]"
    using repo_Update_table [of "Update now req p" db'] u idp by simp
  then show "find (\<lambda>x. key x = k) (table (snd (UpdateProduct now k req db))) =
        Some \<lparr>attributes = Update now req p, malformed = None\<rparr>"
    using h g u v idp by (simp add: UpdateProduct_def find_put)
qed

lemma calls_repo_Update:
  "calls (snd (repo_Update p db)) = calls db @ [PutItemInput \<lparr>attributes = p, malformed = None\<rparr>]"
  by (simp add: repo_Update_state split: option.splits)

lemma UpdateProduct_state:
  "k \<noteq> [] \<Longrightarrow> repo_GetByID k db = (Inr (Some p), db') \<Longrightarrow> validateUpdateRequest req = None \<Longrightarrow>
     UpdateProduct now k req db =
       (case fst (repo_Update (Update now req p) db') of
          Inl err \<Rightarrow> Inl (Errorf ''failed to update product: '' err '''')
        | Inr _ \<Rightarrow> Inr (Update now req p),
        snd (repo_Update (Update now req p) db'))"
  by (cases "repo_Update (Update now req p) db'")
    (auto simp: UpdateProduct_def Let_def split: sum.splits)

lemma shop_get_id1_state:
  "faults db = faults shop \<or> faults db = None # fs \<Longrightarrow> table db = table shop \<Longrightarrow>
     repo_GetByID ''id1'' db = (Inr (Some widget), snd (send (GetItemInput ''id1'') db))"
  using repo_GetByID_result [of "''id1''" db] repo_GetByID_state [of "''id1''" db]
  by (cases "repo_GetByID ''id1'' db")
    (auto simp: next_fault_def key_def shop_def widget_def gadget_def)

lemma Update_nan_price: "Update now nan_price p = p\<lparr>Price := NaN, UpdatedAt := now\<rparr>"
  by (simp add: Update_def nan_price_def no_fields_def)

lemma validate_nan_price: "validateUpdateRequest nan_price = None"
  by (simp add: validateUpdateRequest_def nan_price_def no_fields_def)

text \<open>
  Claim C1. The claim asks for an error that wraps \<^verbatim>\<open>ErrInvalidProduct\<close> whenever a
  present field breaks its rule, and the rule of the price is that it is greater than
  zero. The validator tests \<^verbatim>\<open>*req.Price <= 0\<close>, which is false for NaN: the request
  whose only field is the price NaN breaks the rule and passes the validator. On the
  stored record \<open>widget\<close> the update is applied and sent to the store: where the store
  accepts the write the call succeeds and returns the record with the price NaN, and
  where the store refuses it the error is that of the failed write, which does not
  wrap \<^verbatim>\<open>ErrInvalidProduct\<close>.
\<close>

theorem UpdateProduct_accepts_NaN_price:
  "uPrice nan_price = Some NaN \<and> \<not> gt_zero NaN \<and> \<not> update_rules nan_price \<and>
   validateUpdateRequest nan_price = None \<and>
   fst (repo_GetByID ''id1'' shop) = Inr (Some widget) \<and>
   fst (UpdateProduct 2000 ''id1'' nan_price shop) =
     Inr (widget\<lparr>Price := NaN, UpdatedAt := 2000\<rparr>) \<and>
   calls (snd (UpdateProduct 2000 ''id1'' nan_price shop)) =
     [GetItemInput ''id1'',
      PutItemInput \<lparr>attributes = widget\<lparr>Price := NaN, UpdatedAt := 2000\<rparr>, malformed = None\<rparr>] \<and>
   fst (UpdateProduct 2000 ''id1'' nan_price refusing_write_shop) =
     Inl (Errorf ''failed to update product: ''
           (Errorf ''failed to update product: '' (New ''ValidationException'') '''') '''') \<and>
   \<not> Is (Errorf ''failed to update product: ''
           (Errorf ''failed to update product: '' (New ''ValidationException'') '''') '''')
        ErrInvalidProduct"
proof -
  have r: "\<not> update_rules nan_price"
    by (simp add: update_rules_def nan_price_def no_fields_def)
  have g1: "repo_GetByID ''id1'' shop = (Inr (Some widget), snd (send (GetItemInput ''id1'') shop))"
    by (rule shop_get_id1_state [of shop "[]"]) simp_all
  have g2: "repo_GetByID ''id1'' refusing_write_shop =
      (Inr (Some widget), snd (send (GetItemInput ''id1'') refusing_write_shop))"
    by (rule shop_get_id1_state [of _ "[Some (New ''ValidationException'')]"])
      (simp_all add: refusing_write_shop_def)
  have u1: "UpdateProduct 2000 ''id1'' nan_price shop =
      (Inr (widget\<lparr>Price := NaN, UpdatedAt := 2000\<rparr>),
       snd (repo_Update (widget\<lparr>Price := NaN, UpdatedAt := 2000\<rparr>)
             (snd (send (GetItemInput ''id1'') shop))))"
    using UpdateProduct_state [OF _ g1 validate_nan_price, of 2000]
    by (simp add: Update_nan_price repo_Update_state send_def next_fault_def shop_def)
  have u2: "fst (UpdateProduct 2000 ''id1'' nan_price refusing_write_shop) =
     Inl (Errorf ''failed to update product: ''
           (Errorf ''failed to update product: '' (New ''ValidationException'') '''') '''')"
    using UpdateProduct_state [OF _ g2 validate_nan_price, of 2000]
    by (simp add: Update_nan_price repo_Update_state send_def next_fault_def
        refusing_write_shop_def shop_def)
  have c: "calls (snd (UpdateProduct 2000 ''id1'' nan_price shop)) =
     [GetItemInput ''id1'',
      PutItemInput \<lparr>attributes = widget\<lparr>Price := NaN, UpdatedAt := 2000\<rparr>, malformed = None\<rparr>]"
    using u1 by (simp add: calls_repo_Update shop_def)
  have n: "uPrice nan_price = Some NaN" by (simp add: nan_price_def no_fields_def)
  show ?thesis
    using r g1 u1 u2 c n by (simp add: validate_nan_price)
qed

subsection \<open>Creating\<close>

text \<open>
  For a request whose price is not NaN, \<^verbatim>\<open>CreateProduct\<close> accepts exactly the requests
  that keep the five rules: when the repository write succeeds it returns a product if
  and only if the rules hold, and the product is the one \<^verbatim>\<open>NewProduct\<close> builds. When
  rules are broken, the error wraps \<^verbatim>\<open>ErrInvalidProduct\<close> and carries the message of
  the first broken rule in the order name, price, category, SKU, stock, and nothing is
  sent to the store. A request with an empty name fails with the message that the
  name is required.
\<close>

lemma CreateProduct_validation:
  assumes n: "cPrice req \<noteq> NaN"
  shows
  "(validateCreateRequest req = None \<longleftrightarrow> create_rules req) \<and>
   (create_rules req \<longleftrightarrow> create_violations req = []) \<and>
   validateCreateRequest req =
     (case create_violations req of [] \<Rightarrow> None | m # ms \<Rightarrow> Some (New m)) \<and>
   (fst (repo_Create (NewProduct now u req) db) = Inr () \<longrightarrow>
      ((\<exists>p. fst (CreateProduct now u req db) = Inr p) \<longleftrightarrow> create_rules req)) \<and>
   (create_rules req \<and> fst (repo_Create (NewProduct now u req) db) = Inr () \<longrightarrow>
      fst (CreateProduct now u req db) = Inr (NewProduct now u req)) \<and>
   (\<forall>m ms. create_violations req = m # ms \<longrightarrow>
      CreateProduct now u req db = (Inl (Errorf '''' ErrInvalidProduct ('': '' @ m)), db) \<and>
      Is (Errorf '''' ErrInvalidProduct ('': '' @ m)) ErrInvalidProduct) \<and>
   (cName req = '''' \<longrightarrow>
      (\<exists>e. fst (CreateProduct now u req db) = Inl e \<and> Is e ErrInvalidProduct \<and>
           Error e = ''invalid product data: product name is required''))"
proof (intro conjI impI allI)
  show "validateCreateRequest req = None \<longleftrightarrow> create_rules req"
    by (rule validateCreateRequest_rules [OF n])
  show "create_rules req \<longleftrightarrow> create_violations req = []"
    by (rule create_rules_violations)
  show "validateCreateRequest req =
     (case create_violations req of [] \<Rightarrow> None | m # ms \<Rightarrow> Some (New m))"
    by (rule validateCreateRequest_first [OF n])
next
  assume w: "fst (repo_Create (NewProduct now u req) db) = Inr ()"
  show "(\<exists>p. fst (CreateProduct now u req db) = Inr p) \<longleftrightarrow> create_rules req"
  proof (cases "validateCreateRequest req")
    case None
    then show ?thesis using w validateCreateRequest_rules [OF n]
      by (cases "repo_Create (NewProduct now u req) db") (simp add: CreateProduct_def)
  next
    case (Some err)
    then show ?thesis using validateCreateRequest_rules [OF n]
      by (simp add: CreateProduct_def)
  qed
next
  assume "create_rules req \<and> fst (repo_Create (NewProduct now u req) db) = Inr ()"
  then show "fst (CreateProduct now u req db) = Inr (NewProduct now u req)"
    using validateCreateRequest_rules [OF n]
    by (cases "repo_Create (NewProduct now u req) db") (simp add: CreateProduct_def)
next
  fix m ms
  assume "create_violations req = m # ms"
  then have "validateCreateRequest req = Some (New m)"
    by (simp add: validateCreateRequest_first [OF n])
  then show "CreateProduct now u req db = (Inl (Errorf '''' ErrInvalidProduct ('': '' @ m)), db)"
    by (simp add: CreateProduct_def)
next
  fix m
  show "Is (Errorf '''' ErrInvalidProduct ('': '' @ m)) ErrInvalidProduct"
    by simp
next
  assume "cName req = ''''"
  then have "validateCreateRequest req = Some (New ''product name is required'')"
    by (simp add: validateCreateRequest_def)
  then show "\<exists>e. fst (CreateProduct now u req db) = Inl e \<and> Is e ErrInvalidProduct \<and>
           Error e = ''invalid product data: product name is required''"
    by (simp add: CreateProduct_def)
qed

text \<open>
  Claim C3. The claim has \<^verbatim>\<open>CreateProduct\<close> succeed only if the price is greater than
  zero, and report the first broken rule. The validator tests \<^verbatim>\<open>req.Price <= 0\<close>,
  which is false for NaN. The request \<open>nan_request\<close> breaks the rule of the price and
  no other: it passes the validator, the product is built and sent to the store, and
  the call succeeds where the store accepts the write; where the store refuses it the
  error is that of the failed write, which does not wrap \<^verbatim>\<open>ErrInvalidProduct\<close>. The
  request \<open>nan_uncategorised\<close> breaks the rules of the price and of the category, in
  this order, and the error reports the category.
\<close>

theorem CreateProduct_accepts_NaN_price:
  "cPrice nan_request = NaN \<and> \<not> gt_zero NaN \<and> \<not> create_rules nan_request \<and>
   create_violations nan_request = [''product price must be greater than 0''] \<and>
   validateCreateRequest nan_request = None \<and>
   fst (repo_Create (NewProduct 1000 uuid1 nan_request) shop) = Inr () \<and>
   fst (CreateProduct 1000 uuid1 nan_request shop) = Inr (NewProduct 1000 uuid1 nan_request) \<and>
   Price (NewProduct 1000 uuid1 nan_request) = NaN \<and>
   calls (snd (CreateProduct 1000 uuid1 nan_request shop)) =
     [PutItemInput \<lparr>attributes = NewProduct 1000 uuid1 nan_request, malformed = None\<rparr>] \<and>
   fst (CreateProduct 1000 uuid1 nan_request refusing_shop) =
     Inl (Errorf ''failed to create product: ''
           (Errorf ''failed to create product: '' (New ''ValidationException'') '''') '''') \<and>
   \<not> Is (Errorf ''failed to create product: ''
           (Errorf ''failed to create product: '' (New ''ValidationException'') '''') '''')
        ErrInvalidProduct \<and>
   create_violations nan_uncategorised =
     [''product price must be greater than 0'', ''product category is required''] \<and>
   CreateProduct 1000 uuid1 nan_uncategorised shop =
     (Inl (Errorf '''' ErrInvalidProduct '': product category is required''), shop)"
proof -
  have v: "validateCreateRequest nan_request = None"
    by (simp add: validateCreateRequest_def nan_request_def widget_request_def)
  have v': "validateCreateRequest nan_uncategorised = Some (New ''product category is required'')"
    by (simp add: validateCreateRequest_def nan_uncategorised_def widget_request_def)
  have r: "\<not> create_rules nan_request"
    by (simp add: create_rules_def nan_request_def)
  have l: "create_violations nan_request = [''product price must be greater than 0'']"
    by (simp add: create_violations_def nan_request_def widget_request_def)
  have l': "create_violations nan_uncategorised =
      [''product price must be greater than 0'', ''product category is required'']"
    by (simp add: create_violations_def nan_uncategorised_def widget_request_def)
  have w: "repo_Create (NewProduct 1000 uuid1 nan_request) shop =
      (Inr (), (snd (send (PutItemInput \<lparr>attributes = NewProduct 1000 uuid1 nan_request, malformed = None\<rparr>) shop))
        \<lparr>table := filter (\<lambda>x. key x \<noteq> ID (NewProduct 1000 uuid1 nan_request)) (table shop) @
           [\<lparr>attributes = NewProduct 1000 uuid1 nan_request, malformed = None\<rparr>]\<rparr>)"
    by (simp add: repo_Create_state next_fault_def shop_def)
  have w': "fst (repo_Create (NewProduct 1000 uuid1 nan_request) refusing_shop) =
      Inl (Errorf ''failed to create product: '' (New ''ValidationException'') '''')"
    by (simp add: repo_Create_state next_fault_def refusing_shop_def)
  have c1: "CreateProduct 1000 uuid1 nan_request shop =
      (Inr (NewProduct 1000 uuid1 nan_request), snd (repo_Create (NewProduct 1000 uuid1 nan_request) shop))"
    using v w by (simp add: CreateProduct_def Let_def)
  have c2: "fst (CreateProduct 1000 uuid1 nan_request refusing_shop) =
     Inl (Errorf ''failed to create product: ''
           (Errorf ''failed to create product: '' (New ''ValidationException'') '''') '''')"
    using v w'
    by (cases "repo_Create (NewProduct 1000 uuid1 nan_request) refusing_shop")
      (simp add: CreateProduct_def Let_def)
  have c3: "CreateProduct 1000 uuid1 nan_uncategorised shop =
     (Inl (Errorf '''' ErrInvalidProduct '': product category is required''), shop)"
    using v' by (simp add: CreateProduct_def)
  have p: "Price (NewProduct 1000 uuid1 nan_request) = NaN"
    by (simp add: NewProduct_def nan_request_def)
  have k: "calls (snd (CreateProduct 1000 uuid1 nan_request shop)) =
     [PutItemInput \<lparr>attributes = NewProduct 1000 uuid1 nan_request, malformed = None\<rparr>]"
    using c1 w by (simp add: shop_def)
  have n: "cPrice nan_request = NaN" by (simp add: nan_request_def)
  show ?thesis
    using v r l l' w c1 c2 c3 p k n by simp
qed

lemma find_None_key: "k \<notin> key ` set xs \<Longrightarrow> find (\<lambda>x. key x = k) xs = None"
  by (induction xs) auto

lemma filter_absent_key: "k \<notin> key ` set xs \<Longrightarrow> filter (\<lambda>x. key x \<noteq> k) xs = xs"
  by (induction xs) auto

lemma find_deleted: "find (\<lambda>x. key x = k) (filter (\<lambda>x. key x \<noteq> k) xs) = None"
  by (induction xs) auto

text \<open>
  Claim C5. \<^verbatim>\<open>GetProduct\<close> refuses the empty id with an error that wraps
  \<^verbatim>\<open>ErrInvalidProduct\<close>. The repository's \<^verbatim>\<open>GetByID\<close> answers a key that the table
  does not hold with no product and no error, and the service turns that answer into
  \<^verbatim>\<open>ErrProductNotFound\<close>. A record that \<^verbatim>\<open>GetByID\<close> finds is returned as it is: the
  item stored under the id is given back whatever its \<^verbatim>\<open>IsActive\<close> is, and the table
  is left as it was.
\<close>

theorem GetProduct_lookup:
  "(k = '''' \<longrightarrow> (\<exists>e. GetProduct k db = (Inl e, db) \<and> Is e ErrInvalidProduct)) \<and>
   (next_fault db = None \<and> k \<notin> key ` set (table db) \<longrightarrow>
      fst (repo_GetByID k db) = Inr None) \<and>
   (k \<noteq> '''' \<and> fst (repo_GetByID k db) = Inr None \<longrightarrow>
      fst (GetProduct k db) = Inl ErrProductNotFound) \<and>
   (k \<noteq> '''' \<and> fst (repo_GetByID k db) = Inr (Some p) \<longrightarrow>
      fst (GetProduct k db) = Inr p) \<and>
   (k \<noteq> '''' \<and> next_fault db = None \<and> find (\<lambda>x. key x = k) (table db) = Some it \<and>
    malformed it = None \<longrightarrow>
      fst (GetProduct k db) = Inr (attributes it) \<and>
      table (snd (GetProduct k db)) = table db)"
proof (intro conjI impI)
  assume "k = ''''"
  then show "\<exists>e. GetProduct k db = (Inl e, db) \<and> Is e ErrInvalidProduct"
    by (simp add: GetProduct_def)
next
  assume "next_fault db = None \<and> k \<notin> key ` set (table db)"
  then show "fst (repo_GetByID k db) = Inr None"
    by (simp add: repo_GetByID_result find_None_key)
next
  assume "k \<noteq> '''' \<and> fst (repo_GetByID k db) = Inr None"
  then show "fst (GetProduct k db) = Inl ErrProductNotFound"
    by (cases "repo_GetByID k db") (simp add: GetProduct_def)
next
  assume "k \<noteq> '''' \<and> fst (repo_GetByID k db) = Inr (Some p)"
  then show "fst (GetProduct k db) = Inr p"
    by (cases "repo_GetByID k db") (simp add: GetProduct_def)
next
  assume h: "k \<noteq> '''' \<and> next_fault db = None \<and> find (\<lambda>x. key x = k) (table db) = Some it \<and>
    malformed it = None"
  then have g: "fst (repo_GetByID k db) = Inr (Some (attributes it))"
    by (simp add: repo_GetByID_result)
  with h show "fst (GetProduct k db) = Inr (attributes it)"
    by (cases "repo_GetByID k db") (simp add: GetProduct_def)
  have "snd (GetProduct k db) = snd (repo_GetByID k db)"
    using h g by (cases "repo_GetByID k db") (simp add: GetProduct_def)
  then show "table (snd (GetProduct k db)) = table db"
    by (simp add: repo_GetByID_state)
qed

theorem GetProduct_lookup_witness:
  "(\<exists>e. GetProduct '''' shop = (Inl e, shop) \<and> Is e ErrInvalidProduct) \<and>
   next_fault shop = None \<and> ''missing-id'' \<notin> key ` set (table shop) \<and>
   fst (repo_GetByID ''missing-id'' shop) = Inr None \<and>
   fst (GetProduct ''missing-id'' shop) = Inl ErrProductNotFound \<and>
   fst (repo_GetByID ''id1'' shop) = Inr (Some widget) \<and>
   fst (GetProduct ''id1'' shop) = Inr widget \<and>
   find (\<lambda>x. key x = ''id2'') (table shop) = Some \<lparr>attributes = gadget, malformed = None\<rparr> \<and>
   \<not> IsActive gadget \<and>
   fst (GetProduct ''id2'' shop) = Inr gadget"
proof -
  have a: "next_fault shop = None" by (simp add: next_fault_def shop_def)
  have b: "''missing-id'' \<notin> key ` set (table shop)"
    by (simp add: shop_def widget_def gadget_def)
  have c: "find (\<lambda>x. key x = ''id2'') (table shop) = Some \<lparr>attributes = gadget, malformed = None\<rparr>"
    by (simp add: shop_def widget_def gadget_def)
  have d: "\<not> IsActive gadget" by (simp add: gadget_def)
  show ?thesis
    using GetProduct_lookup [of "''''" shop widget "\<lparr>attributes = gadget, malformed = None\<rparr>"]
      GetProduct_lookup [of "''missing-id''" shop widget "\<lparr>attributes = gadget, malformed = None\<rparr>"]
      GetProduct_lookup [of "''id1''" shop widget "\<lparr>attributes = gadget, malformed = None\<rparr>"]
      GetProduct_lookup [of "''id2''" shop widget "\<lparr>attributes = gadget, malformed = None\<rparr>"]
      a b c d shop_get_id1
    by simp
qed

lemma DeleteProduct_success:
  "fst (DeleteProduct k db) = Inr () \<Longrightarrow>
     k \<noteq> '''' \<and> table (snd (DeleteProduct k db)) = filter (\<lambda>x. key x \<noteq> k) (table db)"
  by (cases "repo_GetByID k db"; cases "next_fault (snd (send (GetItemInput k) db))")
    (auto simp: DeleteProduct_def repo_Delete_state repo_GetByID_state
      dest!: arg_cong [where f = snd] split: if_splits sum.splits option.splits)

text \<open>
  Claim C6. \<^verbatim>\<open>DeleteProduct\<close> refuses the empty id with an error that wraps
  \<^verbatim>\<open>ErrInvalidProduct\<close>; it looks the record up first and fails with
  \<^verbatim>\<open>ErrProductNotFound\<close> when there is none, without sending a delete request. When
  the record is there and the store answers, the call succeeds; a second call on the
  state the first one leaves then fails with \<^verbatim>\<open>ErrProductNotFound\<close>. The repository's
  own \<^verbatim>\<open>Delete\<close> returns no error whenever the store answers, also for a key the
  table does not hold, and then leaves the table as it was.
\<close>

theorem DeleteProduct_existence_check:
  "(k = '''' \<longrightarrow> (\<exists>e. DeleteProduct k db = (Inl e, db) \<and> Is e ErrInvalidProduct)) \<and>
   (k \<noteq> '''' \<and> fst (repo_GetByID k db) = Inr None \<longrightarrow>
      fst (DeleteProduct k db) = Inl ErrProductNotFound \<and>
      calls (snd (DeleteProduct k db)) = calls db @ [GetItemInput k]) \<and>
   (k \<noteq> '''' \<and> fst (repo_GetByID k db) = Inr (Some p) \<and>
    next_fault (snd (repo_GetByID k db)) = None \<longrightarrow>
      fst (DeleteProduct k db) = Inr () \<and>
      calls (snd (DeleteProduct k db)) = calls db @ [GetItemInput k, DeleteItemInput k]) \<and>
   (fst (DeleteProduct k db) = Inr () \<and> next_fault (snd (DeleteProduct k db)) = None \<longrightarrow>
      fst (DeleteProduct k (snd (DeleteProduct k db))) = Inl ErrProductNotFound) \<and>
   (next_fault db = None \<longrightarrow> fst (repo_Delete k db) = Inr ()) \<and>
   (next_fault db = None \<and> k \<notin> key ` set (table db) \<longrightarrow>
      fst (repo_Delete k db) = Inr () \<and> table (snd (repo_Delete k db)) = table db)"
proof (intro conjI impI)
  assume "k = ''''"
  then show "\<exists>e. DeleteProduct k db = (Inl e, db) \<and> Is e ErrInvalidProduct"
    by (simp add: DeleteProduct_def)
next
  assume h: "k \<noteq> '''' \<and> fst (repo_GetByID k db) = Inr None"
  then show "fst (DeleteProduct k db) = Inl ErrProductNotFound"
    by (cases "repo_GetByID k db") (simp add: DeleteProduct_def)
  have "snd (DeleteProduct k db) = snd (repo_GetByID k db)"
    using h by (cases "repo_GetByID k db") (simp add: DeleteProduct_def)
  then show "calls (snd (DeleteProduct k db)) = calls db @ [GetItemInput k]"
    by (simp add: repo_GetByID_state)
next
  assume h: "k \<noteq> '''' \<and> fst (repo_GetByID k db) = Inr (Some p) \<and>
    next_fault (snd (repo_GetByID k db)) = None"
  obtain db' where g: "repo_GetByID k db = (Inr (Some p), db')"
    using h by (cases "repo_GetByID k db") simp
  have db': "db' = snd (send (GetItemInput k) db)"
    using g repo_GetByID_state [of k db] by simp
  have d: "DeleteProduct k db = (Inr (), snd (repo_Delete k db'))"
    using h g by (simp add: DeleteProduct_def repo_Delete_state)
  show "fst (DeleteProduct k db) = Inr ()" using d by simp
  show "calls (snd (DeleteProduct k db)) = calls db @ [GetItemInput k, DeleteItemInput k]"
    using h g d db' by (simp add: repo_Delete_state)
next
  assume h: "fst (DeleteProduct k db) = Inr () \<and> next_fault (snd (DeleteProduct k db)) = None"
  then have k: "k \<noteq> ''''"
    and t: "table (snd (DeleteProduct k db)) = filter (\<lambda>x. key x \<noteq> k) (table db)"
    using DeleteProduct_success [of k db] by simp_all
  have "fst (repo_GetByID k (snd (DeleteProduct k db))) = Inr None"
    using h t by (simp add: repo_GetByID_result find_deleted)
  then show "fst (DeleteProduct k (snd (DeleteProduct k db))) = Inl ErrProductNotFound"
    using k by (cases "repo_GetByID k (snd (DeleteProduct k db))") (simp add: DeleteProduct_def)
next
  assume "next_fault db = None"
  then show "fst (repo_Delete k db) = Inr ()" by (simp add: repo_Delete_state)
next
  assume h: "next_fault db = None \<and> k \<notin> key ` set (table db)"
  then show "fst (repo_Delete k db) = Inr ()" by (simp add: repo_Delete_state)
  show "table (snd (repo_Delete k db)) = table db"
    using h by (simp add: repo_Delete_state filter_absent_key)
qed

lemma unmarshal_items_result:
  "unmarshal_items its acc = Inr ps \<Longrightarrow> ps = acc @ map attributes its"
proof (induction its arbitrary: acc)
  case Nil
  then show ?case by simp
next
  case (Cons a its)
  then show ?case
    using Cons.IH [of "acc @ [attributes a]"]
    by (simp add: UnmarshalMap_def split: option.splits)
qed

lemma holds_active: "holds (Eq ''is_active'' (BOOL True)) = (\<lambda>it. IsActive (attributes it))"
  by (rule ext) (simp add: attribute_def)

lemma holds_category_active:
  "holds (And (Eq ''category'' (S c)) (Eq ''is_active'' (BOOL True))) =
     (\<lambda>it. c \<noteq> '''' \<and> Category (attributes it) = c \<and> IsActive (attributes it))"
  by (rule ext) (auto simp: attribute_def string_attribute_def Let_def split: if_splits)

lemma repo_GetAll_result:
  "fst (repo_GetAll db) = Inr ps \<Longrightarrow>
     ps = map attributes (filter (\<lambda>x. IsActive (attributes x)) (take (page db) (table db)))"
  by (auto simp: repo_GetAll_def Scan_def send_def holds_active split: option.splits
      dest: unmarshal_items_result)

lemma repo_GetByCategory_result:
  "fst (repo_GetByCategory c db) = Inr ps \<Longrightarrow>
     ps = map attributes
       (filter (\<lambda>x. c \<noteq> '''' \<and> Category (attributes x) = c \<and> IsActive (attributes x))
         (take (page db) (table db)))"
  by (auto simp: repo_GetByCategory_def Scan_def send_def holds_category_active
      split: option.splits dest: unmarshal_items_result)

lemma GetAllProducts_result: "fst (GetAllProducts db) = Inr ps \<Longrightarrow> fst (repo_GetAll db) = Inr ps"
  by (cases "repo_GetAll db") (auto simp: GetAllProducts_def split: sum.splits)

lemma GetProductsByCategory_result:
  "fst (GetProductsByCategory c db) = Inr ps \<Longrightarrow> fst (repo_GetByCategory c db) = Inr ps"
  by (cases "repo_GetByCategory c db")
    (auto simp: GetProductsByCategory_def split: sum.splits if_splits)

text \<open>
  Claim C7. Whatever the table holds, every product that \<^verbatim>\<open>GetAll\<close> or
  \<^verbatim>\<open>GetAllProducts\<close> returns is active, and every product that \<^verbatim>\<open>GetByCategory\<close> or
  \<^verbatim>\<open>GetProductsByCategory\<close> returns is active and of the category asked for. An
  inactive record is still what \<^verbatim>\<open>GetByID\<close> returns for its id.
\<close>

theorem scans_return_active_products_only:
  "(fst (repo_GetAll db) = Inr ps \<longrightarrow> (\<forall>p \<in> set ps. IsActive p)) \<and>
   (fst (GetAllProducts db) = Inr ps \<longrightarrow> (\<forall>p \<in> set ps. IsActive p)) \<and>
   (fst (repo_GetByCategory c db) = Inr ps \<longrightarrow>
      (\<forall>p \<in> set ps. IsActive p \<and> Category p = c)) \<and>
   (fst (GetProductsByCategory c db) = Inr ps \<longrightarrow>
      (\<forall>p \<in> set ps. IsActive p \<and> Category p = c)) \<and>
   (next_fault db = None \<and> find (\<lambda>x. key x = k) (table db) = Some it \<and>
    malformed it = None \<and> \<not> IsActive (attributes it) \<longrightarrow>
      fst (repo_GetByID k db) = Inr (Some (attributes it)))"
proof (intro conjI impI)
  assume "fst (repo_GetAll db) = Inr ps"
  from repo_GetAll_result [OF this] show "\<forall>p \<in> set ps. IsActive p" by auto
next
  assume "fst (GetAllProducts db) = Inr ps"
  from repo_GetAll_result [OF GetAllProducts_result [OF this]]
  show "\<forall>p \<in> set ps. IsActive p" by auto
next
  assume "fst (repo_GetByCategory c db) = Inr ps"
  from repo_GetByCategory_result [OF this]
  show "\<forall>p \<in> set ps. IsActive p \<and> Category p = c" by auto
next
  assume "fst (GetProductsByCategory c db) = Inr ps"
  from repo_GetByCategory_result [OF GetProductsByCategory_result [OF this]]
  show "\<forall>p \<in> set ps. IsActive p \<and> Category p = c" by auto
next
  assume "next_fault db = None \<and> find (\<lambda>x. key x = k) (table db) = Some it \<and>
    malformed it = None \<and> \<not> IsActive (attributes it)"
  then show "fst (repo_GetByID k db) = Inr (Some (attributes it))"
    by (simp add: repo_GetByID_result)
qed

lemma shop_GetAll: "fst (repo_GetAll shop) = Inr [widget]"
  by (simp add: repo_GetAll_def Scan_def send_def next_fault_def UnmarshalMap_def shop_def
      holds_active widget_def gadget_def)

lemma shop_GetByCategory: "fst (repo_GetByCategory ''tools'' shop) = Inr [widget]"
  by (simp add: repo_GetByCategory_def Scan_def send_def next_fault_def UnmarshalMap_def shop_def
      holds_category_active widget_def gadget_def)

lemma shop_next_fault: "next_fault shop = None"
  by (simp add: next_fault_def shop_def)

lemma shop_find_id2:
  "find (\<lambda>x. key x = ''id2'') (table shop) = Some \<lparr>attributes = gadget, malformed = None\<rparr>"
  by (simp add: shop_def widget_def gadget_def)

theorem scans_return_active_products_only_witness:
  "fst (repo_GetAll shop) = Inr [widget] \<and> fst (GetAllProducts shop) = Inr [widget] \<and>
   fst (repo_GetByCategory ''tools'' shop) = Inr [widget] \<and>
   fst (GetProductsByCategory ''tools'' shop) = Inr [widget] \<and>
   IsActive widget \<and> Category widget = ''tools'' \<and>
   next_fault shop = None \<and>
   find (\<lambda>x. key x = ''id2'') (table shop) = Some \<lparr>attributes = gadget, malformed = None\<rparr> \<and>
   \<not> IsActive gadget \<and> Category gadget = ''tools'' \<and>
   fst (repo_GetByID ''id2'' shop) = Inr (Some gadget)"
proof -
  have a: "fst (GetAllProducts shop) = Inr [widget]"
    using shop_GetAll by (cases "repo_GetAll shop") (simp add: GetAllProducts_def)
  have b: "fst (GetProductsByCategory ''tools'' shop) = Inr [widget]"
    using shop_GetByCategory
    by (cases "repo_GetByCategory ''tools'' shop") (simp add: GetProductsByCategory_def)
  have c: "\<not> IsActive gadget \<and> Category gadget = ''tools''" by (simp add: gadget_def)
  show ?thesis
    using scans_return_active_products_only
      [of shop "[widget]" "''tools''" "''id2''" "\<lparr>attributes = gadget, malformed = None\<rparr>"]
      a b c shop_GetAll shop_GetByCategory shop_next_fault shop_find_id2
    by simp
qed

lemma faults_send [simp]: "faults (snd (send c db)) = tl (faults db)"
  by (simp add: send_def split: list.splits)

lemma faults_repo_GetByID: "faults (snd (repo_GetByID k db)) = tl (faults db)"
  by (simp add: repo_GetByID_state)

lemma faults_repo_Delete: "faults (snd (repo_Delete k db)) = tl (faults db)"
  by (simp add: repo_Delete_state split: option.splits)

lemma faults_DeleteProduct:
  assumes "faults db = []"
  shows "faults (snd (DeleteProduct k db)) = []"
proof -
  obtain r db' where g: "repo_GetByID k db = (r, db')" by (cases "repo_GetByID k db")
  then have f': "faults db' = []" using faults_repo_GetByID [of k db] assms by simp
  obtain r' db'' where d: "repo_Delete k db' = (r', db'')" by (cases "repo_Delete k db'")
  then have f'': "faults db'' = []" using faults_repo_Delete [of k db'] f' by simp
  show ?thesis
    using assms g f' d f''
    by (simp add: DeleteProduct_def split: sum.splits option.splits)
qed

lemma shop_faults_after_delete: "next_fault (snd (DeleteProduct k shop)) = None"
  using faults_DeleteProduct [of shop k] by (simp add: next_fault_def shop_def)

theorem DeleteProduct_existence_check_witness:
  "(\<exists>e. DeleteProduct '''' shop = (Inl e, shop) \<and> Is e ErrInvalidProduct) \<and>
   fst (repo_GetByID ''missing-id'' shop) = Inr None \<and>
   fst (DeleteProduct ''missing-id'' shop) = Inl ErrProductNotFound \<and>
   fst (repo_GetByID ''id1'' shop) = Inr (Some widget) \<and>
   next_fault (snd (repo_GetByID ''id1'' shop)) = None \<and>
   fst (DeleteProduct ''id1'' shop) = Inr () \<and>
   next_fault (snd (DeleteProduct ''id1'' shop)) = None \<and>
   fst (DeleteProduct ''id1'' (snd (DeleteProduct ''id1'' shop))) = Inl ErrProductNotFound \<and>
   next_fault shop = None \<and> ''missing-id'' \<notin> key ` set (table shop) \<and>
   fst (repo_Delete ''missing-id'' shop) = Inr () \<and>
   table (snd (repo_Delete ''missing-id'' shop)) = table shop"
proof -
  have b: "''missing-id'' \<notin> key ` set (table shop)"
    by (simp add: shop_def widget_def gadget_def)
  show ?thesis
    using DeleteProduct_existence_check [of "''''" shop widget]
      DeleteProduct_existence_check [of "''missing-id''" shop widget]
      DeleteProduct_existence_check [of "''id1''" shop widget]
      b shop_get_id1 shop_get_missing shop_after_get shop_next_fault
      shop_faults_after_delete [of "''id1''"]
    by simp
qed

subsection \<open>Timestamps\<close>

lemma UpdateProduct_success:
  "fst (repo_GetByID k db) = Inr (Some p) \<Longrightarrow> fst (UpdateProduct now k req db) = Inr p' \<Longrightarrow>
     p' = Update now req p"
  by (cases "repo_GetByID k db"; cases "repo_Update (Update now req p) (snd (repo_GetByID k db))")
    (auto simp: UpdateProduct_def split: if_splits option.splits sum.splits)

lemma CreatedAt_Update [simp]: "CreatedAt (Update now req p) = CreatedAt p"
  by (simp add: Update_def Let_def split: option.split)

lemma UpdatedAt_Update [simp]: "UpdatedAt (Update now req p) = now"
  by (simp add: Update_def Let_def split: option.split)

text \<open>
  Claim C8, as the code has it. \<^verbatim>\<open>NewProduct\<close> sets \<^verbatim>\<open>CreatedAt\<close> and \<^verbatim>\<open>UpdatedAt\<close> to
  the clock reading of the construction. \<^verbatim>\<open>Product.Update\<close>, and with it every
  successful \<^verbatim>\<open>UpdateProduct\<close>, keeps \<^verbatim>\<open>CreatedAt\<close> and sets \<^verbatim>\<open>UpdatedAt\<close> to the clock
  reading of the update, whatever fields the request holds. So \<^verbatim>\<open>UpdatedAt\<close> becomes
  strictly greater than its previous value exactly when the clock reads later than the
  stored \<^verbatim>\<open>UpdatedAt\<close>, and \<^verbatim>\<open>UpdatedAt\<close> is at least \<^verbatim>\<open>CreatedAt\<close> after the update
  exactly when the clock reads no earlier than \<^verbatim>\<open>CreatedAt\<close>.
\<close>

theorem timestamps_follow_the_clock:
  "CreatedAt (NewProduct now u creq) = now \<and> UpdatedAt (NewProduct now u creq) = now \<and>
   CreatedAt (Update now req p) = CreatedAt p \<and>
   UpdatedAt (Update now req p) = now \<and>
   (UpdatedAt p < UpdatedAt (Update now req p) \<longleftrightarrow> UpdatedAt p < now) \<and>
   (CreatedAt (Update now req p) \<le> UpdatedAt (Update now req p) \<longleftrightarrow> CreatedAt p \<le> now) \<and>
   (fst (repo_GetByID k db) = Inr (Some p) \<and> fst (UpdateProduct now k req db) = Inr p' \<longrightarrow>
      CreatedAt p' = CreatedAt p \<and> UpdatedAt p' = now \<and>
      (UpdatedAt p < UpdatedAt p' \<longleftrightarrow> UpdatedAt p < now) \<and>
      (CreatedAt p' \<le> UpdatedAt p' \<longleftrightarrow> CreatedAt p \<le> now))"
proof -
  have "CreatedAt p' = CreatedAt p \<and> UpdatedAt p' = now \<and>
      (UpdatedAt p < UpdatedAt p' \<longleftrightarrow> UpdatedAt p < now) \<and>
      (CreatedAt p' \<le> UpdatedAt p' \<longleftrightarrow> CreatedAt p \<le> now)"
    if "fst (repo_GetByID k db) = Inr (Some p)" "fst (UpdateProduct now k req db) = Inr p'"
    using UpdateProduct_success [OF that] by simp
  then show ?thesis by (simp add: NewProduct_def)
qed

lemma shop_update_id1:
  "fst (UpdateProduct now ''id1'' price_only shop) = Inr (widget\<lparr>Price := Finite 12.5, UpdatedAt := now\<rparr>)"
proof -
  have r2: "validateUpdateRequest price_only = None"
    by (simp add: validateUpdateRequest_def price_only_def no_fields_def)
  have w: "fst (repo_Update (Update now price_only widget) (snd (repo_GetByID ''id1'' shop))) = Inr ()"
    by (simp add: repo_Update_state shop_after_get)
  have m: "Update now price_only widget = widget\<lparr>Price := Finite 12.5, UpdatedAt := now\<rparr>"
    by (simp add: Update_def price_only_def no_fields_def)
  obtain db' where g: "repo_GetByID ''id1'' shop = (Inr (Some widget), db')"
    using shop_get_id1 by (cases "repo_GetByID ''id1'' shop") simp
  obtain db'' where u: "repo_Update (Update now price_only widget) db' = (Inr (), db'')"
    using w g by (cases "repo_Update (Update now price_only widget) db'") simp
  show ?thesis
    using r2 g u m by (simp add: UpdateProduct_def)
qed

theorem timestamps_follow_the_clock_witness:
  "fst (repo_GetByID ''id1'' shop) = Inr (Some widget) \<and>
   fst (UpdateProduct 2000 ''id1'' price_only shop) = Inr (widget\<lparr>Price := Finite 12.5, UpdatedAt := 2000\<rparr>) \<and>
   UpdatedAt widget < 2000 \<and> CreatedAt widget \<le> 2000 \<and>
   UpdatedAt widget < UpdatedAt (widget\<lparr>Price := Finite 12.5, UpdatedAt := 2000\<rparr>) \<and>
   CreatedAt (widget\<lparr>Price := Finite 12.5, UpdatedAt := 2000\<rparr>) \<le> UpdatedAt (widget\<lparr>Price := Finite 12.5, UpdatedAt := 2000\<rparr>) \<and>
   UpdatedAt widget < UpdatedAt (Update 2000 no_fields widget)"
  using timestamps_follow_the_clock
    [of 2000 uuid1 widget_request no_fields widget "''id1''" shop "widget\<lparr>Price := Finite 12.5, UpdatedAt := 2000\<rparr>"]
    timestamps_follow_the_clock
    [of 2000 uuid1 widget_request price_only widget "''id1''" shop "widget\<lparr>Price := Finite 12.5, UpdatedAt := 2000\<rparr>"]
    shop_get_id1 shop_update_id1 [of 2000]
  by (simp add: widget_def)

text \<open>
  The code compares no timestamps. An update of \<open>widget\<close>, created and last written
  at the instant 1000, at a clock that still reads 1000 succeeds and leaves
  \<^verbatim>\<open>UpdatedAt\<close> as it was; at a clock that reads 999 it succeeds and leaves
  \<^verbatim>\<open>UpdatedAt\<close> earlier than \<^verbatim>\<open>CreatedAt\<close>.
\<close>

theorem updatedAt_strictly_increases_counterexample:
  "fst (repo_GetByID ''id1'' shop) = Inr (Some widget) \<and>
   fst (UpdateProduct 1000 ''id1'' price_only shop) = Inr (widget\<lparr>Price := Finite 12.5, UpdatedAt := 1000\<rparr>) \<and>
   \<not> UpdatedAt widget < UpdatedAt (widget\<lparr>Price := Finite 12.5, UpdatedAt := 1000\<rparr>) \<and>
   \<not> UpdatedAt widget < UpdatedAt (Update 1000 price_only widget) \<and>
   fst (UpdateProduct 999 ''id1'' price_only shop) = Inr (widget\<lparr>Price := Finite 12.5, UpdatedAt := 999\<rparr>) \<and>
   \<not> CreatedAt (widget\<lparr>Price := Finite 12.5, UpdatedAt := 999\<rparr>) \<le> UpdatedAt (widget\<lparr>Price := Finite 12.5, UpdatedAt := 999\<rparr>)"
  using shop_get_id1 shop_update_id1 [of 1000] shop_update_id1 [of 999]
  by (simp add: widget_def)

subsection \<open>The empty update and failed updates\<close>

lemma Update_no_fields: "Update now no_fields p = p\<lparr>UpdatedAt := now\<rparr>"
  by (simp add: Update_def no_fields_def)

lemma UpdateProduct_written:
  assumes k: "k \<noteq> ''''" and g: "fst (repo_GetByID k db) = Inr (Some p)"
    and v: "validateUpdateRequest req = None"
  shows "calls (snd (UpdateProduct now k req db)) =
      calls db @ [GetItemInput k, PutItemInput \<lparr>attributes = Update now req p, malformed = None\<rparr>]"
    and "next_fault (snd (repo_GetByID k db)) = None \<Longrightarrow>
      fst (UpdateProduct now k req db) = Inr (Update now req p) \<and>
      table (snd (UpdateProduct now k req db)) =
        filter (\<lambda>x. key x \<noteq> k) (table db) @ [\<lparr>attributes = Update now req p, malformed = None\<rparr>]"
proof -
  obtain db' where g': "repo_GetByID k db = (Inr (Some p), db')"
    using g by (cases "repo_GetByID k db") simp
  have db': "db' = snd (send (GetItemInput k) db)"
    using g' repo_GetByID_state [of k db] by simp
  have idp: "ID p = k" using g repo_GetByID_ID by blast
  show "calls (snd (UpdateProduct now k req db)) =
      calls db @ [GetItemInput k, PutItemInput \<lparr>attributes = Update now req p, malformed = None\<rparr>]"
    using UpdateProduct_state [OF k g' v, of now] db' by (simp add: calls_repo_Update)
  show "fst (UpdateProduct now k req db) = Inr (Update now req p) \<and>
      table (snd (UpdateProduct now k req db)) =
        filter (\<lambda>x. key x \<noteq> k) (table db) @ [\<lparr>attributes = Update now req p, malformed = None\<rparr>]"
    if "next_fault (snd (repo_GetByID k db)) = None"
    using that k g' v db' idp by (simp add: UpdateProduct_def Let_def repo_Update_state)
qed

text \<open>
  Claim C9. The request with every field absent passes the validator. For a record
  that \<^verbatim>\<open>GetByID\<close> finds, and a store that answers the write, \<^verbatim>\<open>UpdateProduct\<close> with
  that request returns the record with only \<^verbatim>\<open>UpdatedAt\<close> changed, to the clock
  reading, and the write is sent all the same: after the lookup the store receives
  one \<^verbatim>\<open>PutItem\<close> with the whole record, which replaces the item under the id.
\<close>

theorem empty_update_is_valid:
  "validateUpdateRequest no_fields = None \<and> update_rules no_fields \<and>
   (k \<noteq> '''' \<and> fst (repo_GetByID k db) = Inr (Some p) \<and>
    next_fault (snd (repo_GetByID k db)) = None \<longrightarrow>
      fst (UpdateProduct now k no_fields db) = Inr (p\<lparr>UpdatedAt := now\<rparr>) \<and>
      calls (snd (UpdateProduct now k no_fields db)) =
        calls db @ [GetItemInput k,
                    PutItemInput \<lparr>attributes = p\<lparr>UpdatedAt := now\<rparr>, malformed = None\<rparr>] \<and>
      table (snd (UpdateProduct now k no_fields db)) =
        filter (\<lambda>x. key x \<noteq> k) (table db) @
          [\<lparr>attributes = p\<lparr>UpdatedAt := now\<rparr>, malformed = None\<rparr>])"
proof -
  have v: "validateUpdateRequest no_fields = None"
    by (simp add: validateUpdateRequest_def no_fields_def)
  have r: "update_rules no_fields" by (simp add: update_rules_def no_fields_def)
  show ?thesis
    using v r UpdateProduct_written [of k db p no_fields now]
    by (simp add: Update_no_fields)
qed

theorem empty_update_is_valid_witness:
  "fst (repo_GetByID ''id1'' shop) = Inr (Some widget) \<and>
   next_fault (snd (repo_GetByID ''id1'' shop)) = None \<and>
   fst (UpdateProduct 2000 ''id1'' no_fields shop) = Inr (widget\<lparr>UpdatedAt := 2000\<rparr>) \<and>
   calls (snd (UpdateProduct 2000 ''id1'' no_fields shop)) =
     [GetItemInput ''id1'', PutItemInput \<lparr>attributes = widget\<lparr>UpdatedAt := 2000\<rparr>, malformed = None\<rparr>] \<and>
   table (snd (UpdateProduct 2000 ''id1'' no_fields shop)) =
     [\<lparr>attributes = gadget, malformed = None\<rparr>,
      \<lparr>attributes = widget\<lparr>UpdatedAt := 2000\<rparr>, malformed = None\<rparr>]"
  using empty_update_is_valid [of "''id1''" shop widget 2000] shop_get_id1 shop_after_get
  by (simp add: shop_def widget_def gadget_def)

text \<open>
  Claim C10. When the id is empty, when \<^verbatim>\<open>GetByID\<close> fails, when it finds no record,
  or when the validator refuses the request, \<^verbatim>\<open>UpdateProduct\<close> returns an error, the
  table is as it was, and the store has received nothing (empty id) or the lookup
  alone: no write is sent. The write is sent only once a record is found and the
  request has passed the validator, and it carries the merged record; in the error
  cases no record is returned, so no change of the loaded record can be seen.
\<close>

theorem UpdateProduct_failure_leaves_store:
  "((k = '''' \<or> (\<exists>e. fst (repo_GetByID k db) = Inl e) \<or> fst (repo_GetByID k db) = Inr None \<or>
     validateUpdateRequest req \<noteq> None) \<longrightarrow>
      (\<exists>e. fst (UpdateProduct now k req db) = Inl e) \<and>
      table (snd (UpdateProduct now k req db)) = table db \<and>
      calls (snd (UpdateProduct now k req db)) =
        (if k = '''' then calls db else calls db @ [GetItemInput k])) \<and>
   (k \<noteq> '''' \<and> fst (repo_GetByID k db) = Inr (Some p) \<and> validateUpdateRequest req = None \<longrightarrow>
      calls (snd (UpdateProduct now k req db)) =
        calls db @ [GetItemInput k,
                    PutItemInput \<lparr>attributes = Update now req p, malformed = None\<rparr>])"
proof (intro conjI impI)
  assume h: "k = '''' \<or> (\<exists>e. fst (repo_GetByID k db) = Inl e) \<or>
    fst (repo_GetByID k db) = Inr None \<or> validateUpdateRequest req \<noteq> None"
  obtain r db' where g: "repo_GetByID k db = (r, db')" by (cases "repo_GetByID k db")
  have db': "db' = snd (send (GetItemInput k) db)"
    using g repo_GetByID_state [of k db] by simp
  have e: "\<exists>e. fst (UpdateProduct now k req db) = Inl e"
    using h g by (auto simp: UpdateProduct_def split: sum.splits option.splits)
  have s: "snd (UpdateProduct now k req db) = (if k = '''' then db else db')"
    using h g by (auto simp: UpdateProduct_def split: sum.splits option.splits)
  show "\<exists>e. fst (UpdateProduct now k req db) = Inl e" by (rule e)
  show "table (snd (UpdateProduct now k req db)) = table db" using s db' by simp
  show "calls (snd (UpdateProduct now k req db)) =
        (if k = '''' then calls db else calls db @ [GetItemInput k])" using s db' by simp
next
  assume "k \<noteq> '''' \<and> fst (repo_GetByID k db) = Inr (Some p) \<and> validateUpdateRequest req = None"
  then show "calls (snd (UpdateProduct now k req db)) =
        calls db @ [GetItemInput k,
                    PutItemInput \<lparr>attributes = Update now req p, malformed = None\<rparr>]"
    using UpdateProduct_written(1) by blast
qed

lemma refusing_shop_get: "fst (repo_GetByID k refusing_shop) =
    Inl (Errorf ''failed to get product: '' (New ''ValidationException'') '''')"
  by (simp add: repo_GetByID_result next_fault_def refusing_shop_def)

lemma validate_bad_price:
  "validateUpdateRequest bad_price = Some (New ''product price must be greater than 0'')"
  by (simp add: validateUpdateRequest_def bad_price_def no_fields_def)

lemma validate_price_only: "validateUpdateRequest price_only = None"
  by (simp add: validateUpdateRequest_def price_only_def no_fields_def)

lemma Update_price_only:
  "Update now price_only p = p\<lparr>Price := Finite 12.5, UpdatedAt := now\<rparr>"
  by (simp add: Update_def price_only_def no_fields_def)

theorem UpdateProduct_failure_leaves_store_witness:
  "(\<exists>e. fst (UpdateProduct 2000 '''' price_only shop) = Inl e) \<and>
   snd (UpdateProduct 2000 '''' price_only shop) = shop \<and>
   (\<exists>e. fst (repo_GetByID ''id1'' refusing_shop) = Inl e) \<and>
   (\<exists>e. fst (UpdateProduct 2000 ''id1'' price_only refusing_shop) = Inl e) \<and>
   table (snd (UpdateProduct 2000 ''id1'' price_only refusing_shop)) = table refusing_shop \<and>
   calls (snd (UpdateProduct 2000 ''id1'' price_only refusing_shop)) = [GetItemInput ''id1''] \<and>
   fst (repo_GetByID ''missing-id'' shop) = Inr None \<and>
   (\<exists>e. fst (UpdateProduct 2000 ''missing-id'' price_only shop) = Inl e) \<and>
   table (snd (UpdateProduct 2000 ''missing-id'' price_only shop)) = table shop \<and>
   calls (snd (UpdateProduct 2000 ''missing-id'' price_only shop)) = [GetItemInput ''missing-id''] \<and>
   validateUpdateRequest bad_price \<noteq> None \<and>
   (\<exists>e. fst (UpdateProduct 2000 ''id1'' bad_price shop) = Inl e) \<and>
   table (snd (UpdateProduct 2000 ''id1'' bad_price shop)) = table shop \<and>
   calls (snd (UpdateProduct 2000 ''id1'' bad_price shop)) = [GetItemInput ''id1''] \<and>
   fst (repo_GetByID ''id1'' shop) = Inr (Some widget) \<and>
   validateUpdateRequest price_only = None \<and>
   calls (snd (UpdateProduct 2000 ''id1'' price_only shop)) =
     [GetItemInput ''id1'',
      PutItemInput \<lparr>attributes = widget\<lparr>Price := Finite 12.5, UpdatedAt := 2000\<rparr>,
                     malformed = None\<rparr>]"
proof -
  have c: "calls shop = []" "calls refusing_shop = []"
    by (simp_all add: shop_def refusing_shop_def)
  have e: "snd (UpdateProduct 2000 '''' price_only shop) = shop"
    by (simp add: UpdateProduct_def)
  show ?thesis
    using UpdateProduct_failure_leaves_store [of "''''" shop price_only 2000 widget]
      UpdateProduct_failure_leaves_store [of "''id1''" refusing_shop price_only 2000 widget]
      UpdateProduct_failure_leaves_store [of "''missing-id''" shop price_only 2000 widget]
      UpdateProduct_failure_leaves_store [of "''id1''" shop bad_price 2000 widget]
      UpdateProduct_failure_leaves_store [of "''id1''" shop price_only 2000 widget]
      c e refusing_shop_get [of "''id1''"] shop_get_missing shop_get_id1
      validate_bad_price validate_price_only
    by (simp add: Update_price_only)
qed

end
